theory Spec2Isabelle
  imports Main "HOL-Library.Word" "HOL-Library.Product_Lexorder"
begin

section \<open>lndclient: bootstrap of the lnd service registry (lnd\_services.go)\<close>

text \<open>
  A shallow embedding of \<^verbatim>\<open>lnd_services.go\<close>. Pure functions are HOL functions; every
  error return is a value of the type \<open>error\<close>; every effect on the outside world (file
  reads, the dial, RPCs, closing the connection, waiting for a client to finish, sleeping)
  is an \<open>event\<close>, and an effectful function returns the events it caused, in order,
  next to its result. Everything the file calls but does not define (gRPC, the macaroon
  helpers, the RPC clients, the named networks) is a field of the record \<open>world\<close>.
\<close>

subsection \<open>Data\<close>

type_synonym uint32 = "32 word"
type_synonym bytes = "8 word list"
type_synonym Network = string
type_synonym serializedMacaroon = string
type_synonym ClientConn = nat
type_synonym chaincfg_Params = string

text \<open>\<^verbatim>\<open>verrpc.Version\<close>: the fields the file reads.\<close>

record verrpc_Version =
  AppMajor :: uint32
  AppMinor :: uint32
  AppPatch :: uint32
  BuildTags :: "string list"

text \<open>The reply of the \<^verbatim>\<open>GetInfo\<close> RPC: the fields the file reads.\<close>

record Info =
  Alias :: string
  IdentityPubkey :: bytes
  InfoNetwork :: string
  SyncedToChain :: bool

text \<open>
  An error value handed back by a collaborator: a gRPC status error with its code and
  message, or any other error. \<^verbatim>\<open>status.FromError\<close> yields the code and \<open>True\<close> for the
  first kind, \<^verbatim>\<open>codes.Unknown\<close> and \<open>False\<close> for the second.
\<close>

datatype go_error = StatusError uint32 string | PlainError string

definition codes_Unknown :: uint32 where
  "codes_Unknown = 2"

definition codes_Unimplemented :: uint32 where
  "codes_Unimplemented = 12"

fun status_FromError :: "go_error \<Rightarrow> uint32 \<times> bool" where
  "status_FromError (StatusError c m) = (c, True)"
| "status_FromError (PlainError m) = (codes_Unknown, False)"

text \<open>\<^verbatim>\<open>context.Canceled\<close> and \<^verbatim>\<open>context.DeadlineExceeded\<close>.\<close>

datatype ctx_error = Canceled | DeadlineExceeded

text \<open>
  The errors the file returns: its three sentinel values, one constructor for each
  \<^verbatim>\<open>fmt.Errorf\<close> site (carrying what the message is formatted from), the error of a done
  context, and \<open>External\<close> for a collaborator's error returned unchanged.
\<close>

datatype error =
    ErrVersionCheckNotImplemented
  | ErrVersionIncompatible
  | ErrBuildTagsMissing
  | ErrMacaroonSourceConflict
  | ErrUnsupportedNetwork Network
  | ErrAppendRawTLS
  | ErrLoadTLS error
  | ErrConnect go_error
  | External go_error
  | ErrReadonlyPermissions
  | ErrCompatibilityCheck error
  | ErrVersionRequired verrpc_Version
  | ErrGetInfo go_error
  | ErrNetworkMismatch Network string
  | ErrGetVersion go_error
  | ErrObtainMacaroons go_error
  | ErrLightningPermissions
  | ErrGetInfoCall go_error
  | ErrContext ctx_error
  | ErrChainSyncWait error

text \<open>
  The contexts the file holds: \<^verbatim>\<open>context.Background()\<close>, whose \<^verbatim>\<open>Done\<close> channel is
  never closed, and the context the caller passes in as \<^verbatim>\<open>ChainSyncCtx\<close>, whose \<^verbatim>\<open>Done\<close>
  channel is closed from outside (by the caller, or by a deadline the caller set).
\<close>

datatype Context = Background | CallerCtx

text \<open>
  The context an RPC is called with: one of the above as it is, or
  \<^verbatim>\<open>context.WithTimeout(parent, d)\<close> with \<open>d\<close> in seconds.
\<close>

datatype CallContext = NoTimeout Context | WithTimeout Context nat

text \<open>
  \<^verbatim>\<open>ctx.Err()\<close>, given the state of the caller's context (\<open>None\<close> while it is not done);
  \<^verbatim>\<open>ctx.Done()\<close> is closed exactly when \<^verbatim>\<open>ctx.Err()\<close> is not nil.
\<close>

fun ctx_Err :: "Context \<Rightarrow> ctx_error option \<Rightarrow> ctx_error option" where
  "ctx_Err Background caller = None"
| "ctx_Err CallerCtx caller = caller"

text \<open>
  The same for the context of a call, given also the seconds elapsed since it was
  created: a context derived by \<^verbatim>\<open>WithTimeout\<close> is done when its parent is done or when
  its timeout has elapsed, whichever happens first.
\<close>

fun call_ctx_Err :: "CallContext \<Rightarrow> ctx_error option \<Rightarrow> nat \<Rightarrow> ctx_error option" where
  "call_ctx_Err (NoTimeout parent) caller elapsed = ctx_Err parent caller"
| "call_ctx_Err (WithTimeout parent d) caller elapsed =
     (case ctx_Err parent caller of
        Some e \<Rightarrow> Some e
      | None \<Rightarrow> if d \<le> elapsed then Some DeadlineExceeded else None)"

text \<open>The sub-server clients: each holds the shared connection and its own macaroon.\<close>

datatype client =
    LightningClient ClientConn chaincfg_Params serializedMacaroon
  | VersionerClient ClientConn serializedMacaroon
  | ChainNotifierClient ClientConn serializedMacaroon
  | InvoicesClient ClientConn serializedMacaroon
  | SignerClient ClientConn serializedMacaroon
  | WalletKitClient ClientConn serializedMacaroon
  | RouterClient ClientConn serializedMacaroon

datatype TransportCredentials = TLSFromFile string | TLSFromPool bytes

datatype DialerFunc = ClientAddressDialer string | CustomDialer nat

datatype event =
    EvReadTLSFile string
  | EvDial string
  | EvLoadMacaroon string string string
  | EvNewMacaroonPouch
  | EvGetInfo CallContext
  | EvGetVersion
  | EvConnClose
  | EvWaitForFinished client
  | EvTimeAfter nat
  | EvCtxDone

record macaroonPouch =
  invoiceMac :: serializedMacaroon
  chainMac :: serializedMacaroon
  signerMac :: serializedMacaroon
  walletKitMac :: serializedMacaroon
  routerMac :: serializedMacaroon
  adminMac :: serializedMacaroon
  readonlyMac :: serializedMacaroon

record availablePermissions =
  lightning :: bool
  walletKit :: bool
  chainNotifier :: bool
  signer :: bool
  invoices :: bool
  router :: bool
  readOnly :: bool

record LndServicesConfig =
  LndAddress :: string
  Network :: Network
  MacaroonDir :: string
  CustomMacaroonPath :: string
  CustomMacaroon :: "bytes option"
  TLSPath :: string
  RawTLS :: "bytes option"
  CheckVersion :: "verrpc_Version option"
  Dialer :: "DialerFunc option"
  BlockUntilChainSynced :: bool
  ChainSyncCtx :: "Context option"

text \<open>A nil interface value of a client slot is \<open>None\<close>.\<close>

record LndServices =
  Client :: "client option"
  WalletKit :: "client option"
  ChainNotifier :: "client option"
  Signer :: "client option"
  Invoices :: "client option"
  Router :: "client option"
  Versioner :: "client option"
  ChainParams :: chaincfg_Params
  NodeAlias :: string
  NodePubkey :: bytes
  Version :: verrpc_Version
  macaroons :: macaroonPouch
  permissions :: availablePermissions

text \<open>
  \<^verbatim>\<open>GrpcLndServices\<close>: the \<^verbatim>\<open>cleanup\<close> closure is kept as what it captures, the
  connection and the slice \<^verbatim>\<open>cleanupFuncs\<close>; each of its elements waits for one client
  to finish and is kept as that client.
\<close>

record GrpcLndServices =
  LndServices :: LndServices
  cleanupConn :: ClientConn
  cleanupFuncs :: "client list"

text \<open>
  What the file uses and does not define. The named networks and \<^verbatim>\<open>defaultLndDir\<close> are
  declared elsewhere in the package; the functions are the collaborators' results.
  \<open>GetInfo i\<close> is the outcome of the \<open>i\<close>-th \<^verbatim>\<open>GetInfo\<close> call as its caller sees it;
  \<open>callerSignal i\<close> is the state of the caller's context by the time the timer of the
  wait that follows the \<open>i\<close>-th \<^verbatim>\<open>GetInfo\<close> call would fire (\<open>None\<close>: not done, the
  timer fires first).
\<close>

record world =
  NetworkTestnet :: Network
  NetworkMainnet :: Network
  NetworkSimnet :: Network
  NetworkRegtest :: Network
  defaultLndDir :: string
  filepath_Join :: "string list \<Rightarrow> string"
  AppendCertsFromPEM :: "bytes \<Rightarrow> bool"
  NewClientTLSFromFile :: "string \<Rightarrow> go_error option"
  grpc_Dial :: "string \<Rightarrow> TransportCredentials \<Rightarrow> DialerFunc option \<Rightarrow> go_error + ClientConn"
  Network_ChainParams :: "Network \<Rightarrow> go_error + chaincfg_Params"
  loadMacaroon :: "string \<Rightarrow> string \<Rightarrow> string \<Rightarrow> go_error + serializedMacaroon"
  serializeBytesToMacaroon :: "bytes \<Rightarrow> serializedMacaroon"
  checkMacaroonPermissions :: "serializedMacaroon \<Rightarrow> bool"
  newMacaroonPouch :: "string \<Rightarrow> string \<Rightarrow> bytes option \<Rightarrow> go_error + macaroonPouch"
  loadAvailablePermissions :: "macaroonPouch \<Rightarrow> availablePermissions"
  GetInfo :: "nat \<Rightarrow> go_error + Info"
  GetVersion :: "go_error + verrpc_Version"
  callerSignal :: "nat \<Rightarrow> ctx_error option"

subsection \<open>Package variables\<close>

definition rpcTimeout :: nat where
  "rpcTimeout = 30"

definition chainSyncPollInterval :: nat where
  "chainSyncPollInterval = 5"

definition DefaultBuildTags :: "string list" where
  "DefaultBuildTags = [''signrpc'', ''walletrpc'', ''chainrpc'', ''invoicesrpc'']"

definition minimalCompatibleVersion :: verrpc_Version where
  "minimalCompatibleVersion =
     \<lparr>AppMajor = 0, AppMinor = 11, AppPatch = 0, BuildTags = DefaultBuildTags\<rparr>"

definition defaultRPCPort :: string where
  "defaultRPCPort = ''10009''"

definition defaultDataDir :: string where
  "defaultDataDir = ''data''"

definition defaultChainSubDir :: string where
  "defaultChainSubDir = ''chain''"

definition defaultReadonlyFilename :: string where
  "defaultReadonlyFilename = ''readonly.macaroon''"

definition defaultTLSCertFilename :: string where
  "defaultTLSCertFilename = ''tls.cert''"

definition defaultTLSCertPath :: "world \<Rightarrow> string" where
  "defaultTLSCertPath w = filepath_Join w [defaultLndDir w, defaultTLSCertFilename]"

subsection \<open>Version and build tag checks\<close>

text \<open>\<^verbatim>\<open>assertVersionCompatible\<close>: \<open>None\<close> is the nil error.\<close>

definition assertVersionCompatible :: "verrpc_Version \<Rightarrow> verrpc_Version \<Rightarrow> error option" where
  "assertVersionCompatible actual expected =
     (if AppMajor actual \<noteq> AppMajor expected then
        (if AppMajor actual > AppMajor expected then None else Some ErrVersionIncompatible)
      else if AppMinor actual \<noteq> AppMinor expected then
        (if AppMinor actual > AppMinor expected then None else Some ErrVersionIncompatible)
      else if AppPatch actual \<noteq> AppPatch expected then
        (if AppPatch actual > AppPatch expected then None else Some ErrVersionIncompatible)
      else None)"

text \<open>
  \<^verbatim>\<open>assertBuildTagsEnabled\<close>: the first loop fills \<^verbatim>\<open>tagMap\<close>, the second returns at
  the first required tag that is not a key of it.
\<close>

fun fillTagMap :: "string list \<Rightarrow> (string \<rightharpoonup> unit) \<Rightarrow> (string \<rightharpoonup> unit)" where
  "fillTagMap [] tagMap = tagMap"
| "fillTagMap (tag # tags) tagMap = fillTagMap tags (tagMap(tag \<mapsto> ()))"

fun checkRequiredTags :: "(string \<rightharpoonup> unit) \<Rightarrow> string list \<Rightarrow> error option" where
  "checkRequiredTags tagMap [] = None"
| "checkRequiredTags tagMap (required # rest) =
     (case tagMap required of
        None \<Rightarrow> Some ErrBuildTagsMissing
      | Some ok \<Rightarrow> checkRequiredTags tagMap rest)"

definition assertBuildTagsEnabled :: "verrpc_Version \<Rightarrow> string list \<Rightarrow> error option" where
  "assertBuildTagsEnabled actual requiredTags =
     checkRequiredTags (fillTagMap (BuildTags actual) Map.empty) requiredTags"

text \<open>\<^verbatim>\<open>checkVersionCompatibility\<close>: one \<^verbatim>\<open>GetVersion\<close> RPC, then the two checks.\<close>

definition checkVersionCompatibility ::
  "world \<Rightarrow> verrpc_Version \<Rightarrow> event list \<times> (error + verrpc_Version)" where
  "checkVersionCompatibility w expected =
     (case GetVersion w of
        Inl err \<Rightarrow>
          (case status_FromError err of
             (code, ok) \<Rightarrow>
               if ok \<and> code = codes_Unimplemented
               then ([EvGetVersion], Inl ErrVersionCheckNotImplemented)
               else ([EvGetVersion], Inl (ErrGetVersion err)))
      | Inr version \<Rightarrow>
          (case assertVersionCompatible version expected of
             Some err \<Rightarrow> ([EvGetVersion], Inl err)
           | None \<Rightarrow>
               (case assertBuildTagsEnabled version (BuildTags expected) of
                  Some err \<Rightarrow> ([EvGetVersion], Inl err)
                | None \<Rightarrow> ([EvGetVersion], Inr version))))"

subsection \<open>The compatibility check\<close>

text \<open>
  The closure \<^verbatim>\<open>onErr\<close> of \<^verbatim>\<open>checkLndCompatibility\<close>: it closes the connection (an error
  of the close is only logged) and rewrites the error.
\<close>

definition onErr :: "verrpc_Version \<Rightarrow> error \<Rightarrow> event list \<times> (error + 'a)" where
  "onErr minVersion err =
     ([EvConnClose],
      Inl (if err = ErrVersionIncompatible \<or> err = ErrBuildTagsMissing
           then ErrVersionRequired minVersion
           else ErrCompatibilityCheck err))"

text \<open>
  \<^verbatim>\<open>checkLndCompatibility\<close>; \<open>i\<close> is the number of \<^verbatim>\<open>GetInfo\<close> calls made so far. Both
  RPCs run under \<^verbatim>\<open>context.Background()\<close>.
\<close>

definition checkLndCompatibility ::
  "world \<Rightarrow> nat \<Rightarrow> ClientConn \<Rightarrow> chaincfg_Params \<Rightarrow> serializedMacaroon \<Rightarrow> Network \<Rightarrow>
   verrpc_Version \<Rightarrow> event list \<times> (error + string \<times> bytes \<times> verrpc_Version)" where
  "checkLndCompatibility w i conn chainParams roMac network minVersion =
     (case GetInfo w i of
        Inl err \<Rightarrow>
          (case onErr minVersion (ErrGetInfo err) of
             (evs, r) \<Rightarrow> (EvGetInfo (NoTimeout Background) # evs, r))
      | Inr info \<Rightarrow>
          if network \<noteq> InfoNetwork info then
            (case onErr minVersion (ErrNetworkMismatch network (InfoNetwork info)) of
               (evs, r) \<Rightarrow> (EvGetInfo (NoTimeout Background) # evs, r))
          else
            (case checkVersionCompatibility w minVersion of
               (evs1, Inl err) \<Rightarrow>
                 (case onErr minVersion err of
                    (evs2, r) \<Rightarrow> (EvGetInfo (NoTimeout Background) # evs1 @ evs2, r))
             | (evs1, Inr version) \<Rightarrow>
                 (EvGetInfo (NoTimeout Background) # evs1,
                  Inr (Alias info, IdentityPubkey info, version))))"

subsection \<open>Credentials and the connection\<close>

text \<open>
  \<^verbatim>\<open>loadMacaroonsFromDirectory\<close>: the \<^verbatim>\<open>switch\<close> takes the first case that matches. It
  computes a path and touches nothing.
\<close>

definition loadMacaroonsFromDirectory :: "world \<Rightarrow> LndServicesConfig \<Rightarrow> error + string" where
  "loadMacaroonsFromDirectory w cfg =
     (if MacaroonDir cfg = '''' then
        (if Network cfg = NetworkTestnet w then
           Inr (filepath_Join w
             [defaultLndDir w, defaultDataDir, defaultChainSubDir, ''bitcoin'', ''testnet''])
         else if Network cfg = NetworkMainnet w then
           Inr (filepath_Join w
             [defaultLndDir w, defaultDataDir, defaultChainSubDir, ''bitcoin'', ''mainnet''])
         else if Network cfg = NetworkSimnet w then
           Inr (filepath_Join w
             [defaultLndDir w, defaultDataDir, defaultChainSubDir, ''bitcoin'', ''simnet''])
         else if Network cfg = NetworkRegtest w then
           Inr (filepath_Join w
             [defaultLndDir w, defaultDataDir, defaultChainSubDir, ''bitcoin'', ''regtest''])
         else Inl (ErrUnsupportedNetwork (Network cfg)))
      else Inr (MacaroonDir cfg))"

text \<open>\<^verbatim>\<open>loadTlsFromFile\<close> reads the certificate file.\<close>

definition loadTlsFromFile ::
  "world \<Rightarrow> LndServicesConfig \<Rightarrow> event list \<times> (error + TransportCredentials)" where
  "loadTlsFromFile w cfg =
     (let tlsPath = (if TLSPath cfg = '''' then defaultTLSCertPath w else TLSPath cfg) in
      case NewClientTLSFromFile w tlsPath of
        Some err \<Rightarrow> ([EvReadTLSFile tlsPath], Inl (External err))
      | None \<Rightarrow> ([EvReadTLSFile tlsPath], Inr (TLSFromFile tlsPath)))"

text \<open>\<^verbatim>\<open>loadRawTls\<close>: a nil slice is the empty byte sequence.\<close>

definition loadRawTls :: "world \<Rightarrow> LndServicesConfig \<Rightarrow> error + TransportCredentials" where
  "loadRawTls w cfg =
     (let tlsBytes = (case RawTLS cfg of None \<Rightarrow> [] | Some b \<Rightarrow> b) in
      if \<not> AppendCertsFromPEM w tlsBytes then Inl ErrAppendRawTLS
      else Inr (TLSFromPool tlsBytes))"

text \<open>\<^verbatim>\<open>getClientConn\<close>: the credentials, then \<^verbatim>\<open>grpc.Dial\<close>.\<close>

definition getClientConn ::
  "world \<Rightarrow> LndServicesConfig \<Rightarrow> event list \<times> (error + ClientConn)" where
  "getClientConn w cfg =
     (case (case RawTLS cfg of
              Some b \<Rightarrow> ([], loadRawTls w cfg)
            | None \<Rightarrow> loadTlsFromFile w cfg) of
        (evs, Inl loadCredsError) \<Rightarrow> (evs, Inl (ErrLoadTLS loadCredsError))
      | (evs, Inr creds) \<Rightarrow>
          (case grpc_Dial w (LndAddress cfg) creds (Dialer cfg) of
             Inl err \<Rightarrow> (evs @ [EvDial (LndAddress cfg)], Inl (ErrConnect err))
           | Inr conn \<Rightarrow> (evs @ [EvDial (LndAddress cfg)], Inr conn)))"

text \<open>
  Lines 218 to 231 of \<^verbatim>\<open>NewLndServices\<close>: the readonly macaroon, read from its file
  unless raw macaroon bytes are configured.
\<close>

definition loadReadonlyMac ::
  "world \<Rightarrow> LndServicesConfig \<Rightarrow> string \<Rightarrow> event list \<times> (error + serializedMacaroon)" where
  "loadReadonlyMac w cfg macaroonDir =
     (case CustomMacaroon cfg of
        None \<Rightarrow>
          (case loadMacaroon w macaroonDir defaultReadonlyFilename (CustomMacaroonPath cfg) of
             Inl loadMacErr \<Rightarrow>
               ([EvLoadMacaroon macaroonDir defaultReadonlyFilename (CustomMacaroonPath cfg)],
                Inl (External loadMacErr))
           | Inr mac \<Rightarrow>
               ([EvLoadMacaroon macaroonDir defaultReadonlyFilename (CustomMacaroonPath cfg)],
                Inr mac))
      | Some raw \<Rightarrow> ([], Inr (serializeBytesToMacaroon w raw)))"

subsection \<open>Activation and teardown\<close>

text \<open>
  Lines 254 to 336 of \<^verbatim>\<open>NewLndServices\<close>: the registry is filled slot by slot, in the
  order of the source, and \<^verbatim>\<open>cleanupFuncs\<close> grows by \<^verbatim>\<open>append\<close>. The constructors of the
  clients only store the connection and the macaroon.
\<close>

definition activateServices ::
  "ClientConn \<Rightarrow> chaincfg_Params \<Rightarrow> string \<Rightarrow> bytes \<Rightarrow> verrpc_Version \<Rightarrow> macaroonPouch \<Rightarrow>
   availablePermissions \<Rightarrow> error + GrpcLndServices" where
  "activateServices conn chainParams nodeAlias nodeKey version pouch perms =
     (let lndServices0 =
            \<lparr>Client = None, WalletKit = None, ChainNotifier = None, Signer = None,
             Invoices = None, Router = None, Versioner = None,
             ChainParams = chainParams, NodeAlias = nodeAlias, NodePubkey = nodeKey,
             Version = version, macaroons = pouch, permissions = perms\<rparr>
      in
      if lightning perms then
        (let lightningClient = LightningClient conn chainParams (adminMac pouch);
             lndServices1 = lndServices0\<lparr>Client := Some lightningClient\<rparr>;
             cleanupFuncs1 = [] @ [lightningClient];
             lndServices2 =
               lndServices1\<lparr>Versioner := Some (VersionerClient conn (readonlyMac pouch))\<rparr>;
             notifierClient = ChainNotifierClient conn (chainMac pouch);
             lndServices3 =
               (if chainNotifier perms
                then lndServices2\<lparr>ChainNotifier := Some notifierClient\<rparr> else lndServices2);
             cleanupFuncs3 =
               (if chainNotifier perms then cleanupFuncs1 @ [notifierClient] else cleanupFuncs1);
             invoicesClient = InvoicesClient conn (invoiceMac pouch);
             lndServices4 =
               (if invoices perms
                then lndServices3\<lparr>Invoices := Some invoicesClient\<rparr> else lndServices3);
             cleanupFuncs4 =
               (if invoices perms then cleanupFuncs3 @ [invoicesClient] else cleanupFuncs3);
             lndServices5 =
               (if signer perms
                then lndServices4\<lparr>Signer := Some (SignerClient conn (signerMac pouch))\<rparr>
                else lndServices4);
             lndServices6 =
               (if walletKit perms
                then lndServices5\<lparr>WalletKit := Some (WalletKitClient conn (walletKitMac pouch))\<rparr>
                else lndServices5);
             lndServices7 =
               (if router perms
                then lndServices6\<lparr>Router := Some (RouterClient conn (routerMac pouch))\<rparr>
                else lndServices6)
         in Inr \<lparr>LndServices = lndServices7, cleanupConn = conn,
                 cleanupFuncs = cleanupFuncs4\<rparr>)
      else Inl ErrLightningPermissions)"

text \<open>
  The closure \<^verbatim>\<open>cleanup\<close>: it closes the connection (an error of the close is only
  logged), then ranges over \<^verbatim>\<open>cleanupFuncs\<close>.
\<close>

fun runCleanupFuncs :: "client list \<Rightarrow> event list" where
  "runCleanupFuncs [] = []"
| "runCleanupFuncs (cleanupFunc # rest) = EvWaitForFinished cleanupFunc # runCleanupFuncs rest"

definition cleanup :: "GrpcLndServices \<Rightarrow> event list" where
  "cleanup s = EvConnClose # runCleanupFuncs (cleanupFuncs s)"

text \<open>\<^verbatim>\<open>GrpcLndServices.Close\<close>.\<close>

definition Close :: "GrpcLndServices \<Rightarrow> event list" where
  "Close s = cleanup s"

subsection \<open>Waiting for chain sync\<close>

text \<open>
  The goroutine of \<^verbatim>\<open>waitForChainSync\<close> sends one value on \<^verbatim>\<open>update\<close> (or closes it)
  and the caller blocks on the receive, so the function returns what the loop delivers.
  The loop has no bound: the first argument of \<open>pollLoop\<close> is fuel, and \<open>None\<close> says
  that the loop is still running when the fuel is spent. \<open>i\<close> is the number of
  \<^verbatim>\<open>GetInfo\<close> calls made so far. Each query runs under a context derived from
  \<^verbatim>\<open>mainCtx\<close> with the timeout \<^verbatim>\<open>rpcTimeout\<close>. In the \<^verbatim>\<open>select\<close> the caller's context is
  taken when it is done by the time the timer would fire. The result \<open>None\<close> of a
  finished loop is the nil error.
\<close>

fun pollLoop ::
  "world \<Rightarrow> Context \<Rightarrow> nat \<Rightarrow> nat \<Rightarrow> (event list \<times> error option) option" where
  "pollLoop w mainCtx 0 i = None"
| "pollLoop w mainCtx (Suc fuel) i =
     (let ctxt = WithTimeout mainCtx rpcTimeout in
      case GetInfo w i of
        Inl err \<Rightarrow> Some ([EvGetInfo ctxt], Some (ErrGetInfoCall err))
      | Inr info \<Rightarrow>
          if SyncedToChain info then Some ([EvGetInfo ctxt], None)
          else
            (case ctx_Err mainCtx (callerSignal w i) of
               None \<Rightarrow>
                 (case pollLoop w mainCtx fuel (Suc i) of
                    None \<Rightarrow> None
                  | Some (evs, r) \<Rightarrow>
                      Some (EvGetInfo ctxt # EvTimeAfter chainSyncPollInterval # evs, r))
             | Some ctxErr \<Rightarrow> Some ([EvGetInfo ctxt, EvCtxDone], Some (ErrContext ctxErr))))"

text \<open>
  \<^verbatim>\<open>waitForChainSync\<close>. The receiver's \<^verbatim>\<open>Client\<close> is the lightning client that
  \<^verbatim>\<open>NewLndServices\<close>, the only caller, has set; the outcomes of its \<^verbatim>\<open>GetInfo\<close> calls are
  the world's.
\<close>

definition waitForChainSync ::
  "world \<Rightarrow> nat \<Rightarrow> nat \<Rightarrow> GrpcLndServices \<Rightarrow> Context option \<Rightarrow>
   (event list \<times> error option) option" where
  "waitForChainSync w fuel i s ctx =
     (let mainCtx = (case ctx of None \<Rightarrow> Background | Some c \<Rightarrow> c) in
      pollLoop w mainCtx fuel i)"

subsection \<open>The bootstrap\<close>

text \<open>
  Lines 338 to 358 of \<^verbatim>\<open>NewLndServices\<close>: the optional wait for chain sync; \<open>evs\<close> are
  the events so far.
\<close>

definition finishBootstrap ::
  "world \<Rightarrow> nat \<Rightarrow> LndServicesConfig \<Rightarrow> event list \<Rightarrow> GrpcLndServices \<Rightarrow>
   (event list \<times> (error + GrpcLndServices)) option" where
  "finishBootstrap w fuel cfg evs services =
     (if BlockUntilChainSynced cfg then
        (case waitForChainSync w fuel 1 services (ChainSyncCtx cfg) of
           None \<Rightarrow> None
         | Some (evs', Some err) \<Rightarrow>
             Some (evs @ evs' @ cleanup services, Inl (ErrChainSyncWait err))
         | Some (evs', None) \<Rightarrow> Some (evs @ evs', Inr services))
      else Some (evs, Inr services))"

text \<open>
  Lines 207 to 336 of \<^verbatim>\<open>NewLndServices\<close>, from the open connection to the registry;
  \<open>evs\<close> are the events so far. The compatibility check makes the first \<^verbatim>\<open>GetInfo\<close>
  call.
\<close>

definition bootstrapOnConn ::
  "world \<Rightarrow> nat \<Rightarrow> LndServicesConfig \<Rightarrow> verrpc_Version \<Rightarrow> string \<Rightarrow> event list \<Rightarrow>
   ClientConn \<Rightarrow> (event list \<times> (error + GrpcLndServices)) option" where
  "bootstrapOnConn w fuel cfg minVersion macaroonDir evs conn =
     (case Network_ChainParams w (Network cfg) of
        Inl err \<Rightarrow> Some (evs, Inl (External err))
      | Inr chainParams \<Rightarrow>
          (case loadReadonlyMac w cfg macaroonDir of
             (evs2, Inl loadMacErr) \<Rightarrow> Some (evs @ evs2, Inl loadMacErr)
           | (evs2, Inr roMac) \<Rightarrow>
               if \<not> checkMacaroonPermissions w roMac
               then Some (evs @ evs2, Inl ErrReadonlyPermissions)
               else
                 (case checkLndCompatibility w 0 conn chainParams roMac (Network cfg)
                         minVersion of
                    (evs3, Inl err) \<Rightarrow> Some (evs @ evs2 @ evs3, Inl err)
                  | (evs3, Inr (nodeAlias, nodeKey, version)) \<Rightarrow>
                      (case newMacaroonPouch w macaroonDir (CustomMacaroonPath cfg)
                              (CustomMacaroon cfg) of
                         Inl loadMacPouchErr \<Rightarrow>
                           Some (evs @ evs2 @ evs3 @ [EvNewMacaroonPouch],
                                 Inl (ErrObtainMacaroons loadMacPouchErr))
                       | Inr pouch \<Rightarrow>
                           (case activateServices conn chainParams nodeAlias nodeKey version
                                   pouch (loadAvailablePermissions w pouch) of
                              Inl err \<Rightarrow>
                                Some (evs @ evs2 @ evs3 @ [EvNewMacaroonPouch], Inl err)
                            | Inr services \<Rightarrow>
                                finishBootstrap w fuel cfg
                                  (evs @ evs2 @ evs3 @ [EvNewMacaroonPouch]) services)))))"

text \<open>
  \<^verbatim>\<open>NewLndServices\<close>. The two assignments to \<^verbatim>\<open>cfg\<close> at its head fill in the default
  dialer and the default minimal version; \<open>fuel\<close> bounds the wait for chain sync, and
  the result \<open>None\<close> says that the function is still waiting when the fuel is spent.
\<close>

definition NewLndServices ::
  "world \<Rightarrow> nat \<Rightarrow> LndServicesConfig \<Rightarrow> (event list \<times> (error + GrpcLndServices)) option" where
  "NewLndServices w fuel cfg0 =
     (let dialer = (case Dialer cfg0 of
                      None \<Rightarrow> ClientAddressDialer defaultRPCPort | Some d \<Rightarrow> d);
          minVersion = (case CheckVersion cfg0 of
                          None \<Rightarrow> minimalCompatibleVersion | Some v \<Rightarrow> v);
          cfg = cfg0\<lparr>Dialer := Some dialer, CheckVersion := Some minVersion\<rparr>
      in
      if CustomMacaroon cfg = None \<and> (MacaroonDir cfg \<noteq> '''' \<and> CustomMacaroonPath cfg \<noteq> '''')
      then Some ([], Inl ErrMacaroonSourceConflict)
      else
        (case (if CustomMacaroon cfg = None then loadMacaroonsFromDirectory w cfg
               else Inr '''') of
           Inl loadMacDirErr \<Rightarrow> Some ([], Inl loadMacDirErr)
         | Inr macaroonDir \<Rightarrow>
             (case getClientConn w cfg of
                (evs, Inl err) \<Rightarrow> Some (evs, Inl err)
              | (evs, Inr conn) \<Rightarrow>
                  bootstrapOnConn w fuel cfg minVersion macaroonDir evs conn)))"

subsection \<open>Notions used in the statements\<close>

text \<open>
  The outcome of the \<open>j\<close>-th \<^verbatim>\<open>GetInfo\<close> call, as the polling loop reads it: the node
  answered and is not synced yet (the loop goes on), or the poll is final, with the error
  the loop delivers for it (\<open>None\<close>: synced).
\<close>

definition pollNotSynced :: "world \<Rightarrow> nat \<Rightarrow> bool" where
  "pollNotSynced w j =
     (case GetInfo w j of Inl err \<Rightarrow> False | Inr info \<Rightarrow> \<not> SyncedToChain info)"

definition pollResult :: "world \<Rightarrow> nat \<Rightarrow> error option" where
  "pollResult w j =
     (case GetInfo w j of Inl err \<Rightarrow> Some (ErrGetInfoCall err) | Inr info \<Rightarrow> None)"

text \<open>\<open>k\<close> rounds of a query followed by a sleep of the poll interval.\<close>

definition pollRounds :: "CallContext \<Rightarrow> nat \<Rightarrow> event list" where
  "pollRounds ctxt k = concat (replicate k [EvGetInfo ctxt, EvTimeAfter chainSyncPollInterval])"

text \<open>
  The registry agrees with a permission set: each optional client is present exactly
  when its flag is set, the lightning client likewise, and the versioner always.
\<close>

definition registryMatches :: "availablePermissions \<Rightarrow> LndServices \<Rightarrow> bool" where
  "registryMatches perms r \<longleftrightarrow>
     (Client r \<noteq> None \<longleftrightarrow> lightning perms)
     \<and> (ChainNotifier r \<noteq> None \<longleftrightarrow> chainNotifier perms)
     \<and> (Invoices r \<noteq> None \<longleftrightarrow> invoices perms)
     \<and> (Signer r \<noteq> None \<longleftrightarrow> signer perms)
     \<and> (WalletKit r \<noteq> None \<longleftrightarrow> walletKit perms)
     \<and> (Router r \<noteq> None \<longleftrightarrow> router perms)
     \<and> Versioner r \<noteq> None"

text \<open>
  Three kinds of errors of \<^verbatim>\<open>NewLndServices\<close>: those that \<^verbatim>\<open>checkLndCompatibility\<close>
  returns, the failed wait for chain sync, and the failures between the dial and the
  registry that are neither: chain parameters or readonly macaroon not loaded (the
  collaborator's error, unchanged), readonly permissions missing, macaroon pouch not
  loaded, lightning permission missing.
\<close>

fun compatibilityFailure :: "error \<Rightarrow> bool" where
  "compatibilityFailure (ErrCompatibilityCheck e) = True"
| "compatibilityFailure (ErrVersionRequired v) = True"
| "compatibilityFailure e = False"

fun chainSyncFailure :: "error \<Rightarrow> bool" where
  "chainSyncFailure (ErrChainSyncWait e) = True"
| "chainSyncFailure e = False"

fun postDialFailure :: "error \<Rightarrow> bool" where
  "postDialFailure (External e) = True"
| "postDialFailure ErrReadonlyPermissions = True"
| "postDialFailure (ErrObtainMacaroons e) = True"
| "postDialFailure ErrLightningPermissions = True"
| "postDialFailure e = False"

text \<open>
  A world for the examples: a mainnet node named alice that reports chain sync from its
  third \<^verbatim>\<open>GetInfo\<close> answer on, and a macaroon pouch with the permissions of the lightning,
  chain notifier and router clients.
\<close>

definition examplePouch :: macaroonPouch where
  "examplePouch =
     \<lparr>invoiceMac = ''invoices'', chainMac = ''chainnotifier'', signerMac = ''signer'',
      walletKitMac = ''walletkit'', routerMac = ''router'', adminMac = ''admin'',
      readonlyMac = ''readonly''\<rparr>"

definition examplePermissions :: availablePermissions where
  "examplePermissions =
     \<lparr>lightning = True, walletKit = False, chainNotifier = True, signer = False,
      invoices = False, router = True, readOnly = True\<rparr>"

definition exampleVersion :: verrpc_Version where
  "exampleVersion =
     \<lparr>AppMajor = 0, AppMinor = 11, AppPatch = 1,
      BuildTags = [''walletrpc'', ''signrpc'', ''chainrpc'', ''invoicesrpc'', ''routerrpc'']\<rparr>"

definition exampleWorld :: world where
  "exampleWorld =
     \<lparr>NetworkTestnet = ''testnet'', NetworkMainnet = ''mainnet'',
      NetworkSimnet = ''simnet'', NetworkRegtest = ''regtest'',
      defaultLndDir = ''/home/alice/.lnd'',
      filepath_Join = (\<lambda>parts. foldr (\<lambda>p acc. if acc = [] then p else p @ ''/'' @ acc) parts []),
      AppendCertsFromPEM = (\<lambda>b. True),
      NewClientTLSFromFile = (\<lambda>path. None),
      grpc_Dial = (\<lambda>addr creds dialer. Inr 1),
      Network_ChainParams = (\<lambda>n. Inr n),
      loadMacaroon = (\<lambda>dir file path. Inr ''readonly''),
      serializeBytesToMacaroon = (\<lambda>b. ''raw''),
      checkMacaroonPermissions = (\<lambda>m. True),
      newMacaroonPouch = (\<lambda>dir path raw. Inr examplePouch),
      loadAvailablePermissions = (\<lambda>p. examplePermissions),
      GetInfo = (\<lambda>i. Inr \<lparr>Alias = ''alice'', IdentityPubkey = [2, 3], InfoNetwork = ''mainnet'',
                          SyncedToChain = (3 \<le> i)\<rparr>),
      GetVersion = Inr exampleVersion,
      callerSignal = (\<lambda>i. None)\<rparr>"

definition exampleConfig :: LndServicesConfig where
  "exampleConfig =
     \<lparr>LndAddress = ''localhost:10009'', Network = ''mainnet'', MacaroonDir = '''',
      CustomMacaroonPath = '''', CustomMacaroon = None, TLSPath = '''', RawTLS = None,
      CheckVersion = None, Dialer = None, BlockUntilChainSynced = False,
      ChainSyncCtx = None\<rparr>"

text \<open>The registry that the example world and configuration lead to.\<close>

definition exampleServices :: GrpcLndServices where
  "exampleServices =
     \<lparr>LndServices =
        \<lparr>Client = Some (LightningClient 1 ''mainnet'' ''admin''),
         WalletKit = None,
         ChainNotifier = Some (ChainNotifierClient 1 ''chainnotifier''),
         Signer = None, Invoices = None,
         Router = Some (RouterClient 1 ''router''),
         Versioner = Some (VersionerClient 1 ''readonly''),
         ChainParams = ''mainnet'', NodeAlias = ''alice'', NodePubkey = [2, 3],
         Version = exampleVersion, macaroons = examplePouch,
         permissions = examplePermissions\<rparr>,
      cleanupConn = 1,
      cleanupFuncs = [LightningClient 1 ''mainnet'' ''admin'',
                      ChainNotifierClient 1 ''chainnotifier'']\<rparr>"

section \<open>Properties\<close>

subsection \<open>Version and build tags\<close>

lemma assertVersionCompatible_cases:
  "assertVersionCompatible actual expected = None \<or>
   assertVersionCompatible actual expected = Some ErrVersionIncompatible"
  by (simp add: assertVersionCompatible_def)

text \<open>
  Claim C1. The version check returns no error exactly when the expected triple (major,
  minor, patch) is at most the actual one in the lexicographic order, and
  \<^verbatim>\<open>ErrVersionIncompatible\<close> otherwise: where the majors differ the greater major decides,
  where they agree and the minors differ the greater minor decides, where both agree and
  the patches differ the greater patch decides, and equal triples are compatible. (The
  order \<open>\<le>\<close> on tuples is the lexicographic one here.)
\<close>

theorem assertVersionCompatible_lexicographic:
  "assertVersionCompatible actual expected =
     (if (AppMajor expected, AppMinor expected, AppPatch expected)
           \<le> (AppMajor actual, AppMinor actual, AppPatch actual)
      then None else Some ErrVersionIncompatible)
   \<and> (AppMajor actual \<noteq> AppMajor expected \<longrightarrow>
        (assertVersionCompatible actual expected = None \<longleftrightarrow>
         AppMajor actual > AppMajor expected))
   \<and> (AppMajor actual = AppMajor expected \<and> AppMinor actual \<noteq> AppMinor expected \<longrightarrow>
        (assertVersionCompatible actual expected = None \<longleftrightarrow>
         AppMinor actual > AppMinor expected))
   \<and> (AppMajor actual = AppMajor expected \<and> AppMinor actual = AppMinor expected
        \<and> AppPatch actual \<noteq> AppPatch expected \<longrightarrow>
        (assertVersionCompatible actual expected = None \<longleftrightarrow>
         AppPatch actual > AppPatch expected))
   \<and> (AppMajor actual = AppMajor expected \<and> AppMinor actual = AppMinor expected
        \<and> AppPatch actual = AppPatch expected \<longrightarrow>
        assertVersionCompatible actual expected = None)"
  by (auto simp: assertVersionCompatible_def less_eq_prod_def)

text \<open>
  Against the expected version 0.11.0: 0.10.9 and 0.9.99 are incompatible, 0.11.0, 0.11.1
  and 1.0.0 are compatible.
\<close>

theorem assertVersionCompatible_lexicographic_witness:
  "assertVersionCompatible \<lparr>AppMajor = 0, AppMinor = 10, AppPatch = 9, BuildTags = []\<rparr>
     minimalCompatibleVersion = Some ErrVersionIncompatible
   \<and> assertVersionCompatible \<lparr>AppMajor = 0, AppMinor = 9, AppPatch = 99, BuildTags = []\<rparr>
     minimalCompatibleVersion = Some ErrVersionIncompatible
   \<and> assertVersionCompatible \<lparr>AppMajor = 0, AppMinor = 11, AppPatch = 0, BuildTags = []\<rparr>
     minimalCompatibleVersion = None
   \<and> assertVersionCompatible \<lparr>AppMajor = 0, AppMinor = 11, AppPatch = 1, BuildTags = []\<rparr>
     minimalCompatibleVersion = None
   \<and> assertVersionCompatible \<lparr>AppMajor = 1, AppMinor = 0, AppPatch = 0, BuildTags = []\<rparr>
     minimalCompatibleVersion = None"
  using
    assertVersionCompatible_lexicographic
      [of "\<lparr>AppMajor = 0, AppMinor = 10, AppPatch = 9, BuildTags = []\<rparr>"
          minimalCompatibleVersion]
    assertVersionCompatible_lexicographic
      [of "\<lparr>AppMajor = 0, AppMinor = 9, AppPatch = 99, BuildTags = []\<rparr>"
          minimalCompatibleVersion]
    assertVersionCompatible_lexicographic
      [of "\<lparr>AppMajor = 0, AppMinor = 11, AppPatch = 0, BuildTags = []\<rparr>"
          minimalCompatibleVersion]
    assertVersionCompatible_lexicographic
      [of "\<lparr>AppMajor = 0, AppMinor = 11, AppPatch = 1, BuildTags = []\<rparr>"
          minimalCompatibleVersion]
    assertVersionCompatible_lexicographic
      [of "\<lparr>AppMajor = 1, AppMinor = 0, AppPatch = 0, BuildTags = []\<rparr>"
          minimalCompatibleVersion]
  by (simp add: minimalCompatibleVersion_def)

lemma dom_fillTagMap: "dom (fillTagMap tags tagMap) = dom tagMap \<union> set tags"
  by (induction tags arbitrary: tagMap) auto

lemma checkRequiredTags_subset:
  "checkRequiredTags tagMap required =
     (if set required \<subseteq> dom tagMap then None else Some ErrBuildTagsMissing)"
  by (induction required) (auto split: option.splits)

lemma assertBuildTagsEnabled_cases:
  "assertBuildTagsEnabled actual required = None \<or>
   assertBuildTagsEnabled actual required = Some ErrBuildTagsMissing"
  by (simp add: assertBuildTagsEnabled_def checkRequiredTags_subset)

text \<open>
  Claim C7. The build tag check returns no error exactly when every required tag occurs
  among the actual tags, and \<^verbatim>\<open>ErrBuildTagsMissing\<close> otherwise; the order of the tags and
  their repetitions, in either list, do not change the result.
\<close>

theorem assertBuildTagsEnabled_subset:
  "assertBuildTagsEnabled actual requiredTags =
     (if set requiredTags \<subseteq> set (BuildTags actual) then None else Some ErrBuildTagsMissing)
   \<and> (set (BuildTags actual') = set (BuildTags actual) \<and> set requiredTags' = set requiredTags
        \<longrightarrow> assertBuildTagsEnabled actual' requiredTags'
            = assertBuildTagsEnabled actual requiredTags)"
  by (simp add: assertBuildTagsEnabled_def checkRequiredTags_subset dom_fillTagMap)

theorem assertBuildTagsEnabled_subset_witness:
  "assertBuildTagsEnabled
     \<lparr>AppMajor = 0, AppMinor = 11, AppPatch = 0,
      BuildTags = [''walletrpc'', ''signrpc'', ''chainrpc'']\<rparr>
     [''signrpc'', ''walletrpc''] = None
   \<and> assertBuildTagsEnabled
     \<lparr>AppMajor = 0, AppMinor = 11, AppPatch = 0, BuildTags = [''walletrpc'']\<rparr>
     [''signrpc'', ''walletrpc''] = Some ErrBuildTagsMissing
   \<and> assertBuildTagsEnabled
     \<lparr>AppMajor = 0, AppMinor = 11, AppPatch = 0,
      BuildTags = [''signrpc'', ''walletrpc'', ''signrpc'']\<rparr>
     [''walletrpc'', ''walletrpc'', ''signrpc'']
     = assertBuildTagsEnabled
     \<lparr>AppMajor = 0, AppMinor = 11, AppPatch = 0, BuildTags = [''walletrpc'', ''signrpc'']\<rparr>
     [''signrpc'', ''walletrpc'']"
  using
    assertBuildTagsEnabled_subset
      [of "\<lparr>AppMajor = 0, AppMinor = 11, AppPatch = 0,
            BuildTags = [''walletrpc'', ''signrpc'', ''chainrpc'']\<rparr>"
          "[''signrpc'', ''walletrpc'']"]
    assertBuildTagsEnabled_subset
      [of "\<lparr>AppMajor = 0, AppMinor = 11, AppPatch = 0, BuildTags = [''walletrpc'']\<rparr>"
          "[''signrpc'', ''walletrpc'']"]
    assertBuildTagsEnabled_subset
      [of "\<lparr>AppMajor = 0, AppMinor = 11, AppPatch = 0,
            BuildTags = [''walletrpc'', ''signrpc'']\<rparr>"
          "[''signrpc'', ''walletrpc'']"
          "\<lparr>AppMajor = 0, AppMinor = 11, AppPatch = 0,
            BuildTags = [''signrpc'', ''walletrpc'', ''signrpc'']\<rparr>"
          "[''walletrpc'', ''walletrpc'', ''signrpc'']"]
  by auto

lemma checkVersionCompatibility_events:
  "fst (checkVersionCompatibility w expected) = [EvGetVersion]"
  by (simp add: checkVersionCompatibility_def split: sum.splits option.splits prod.splits)

lemma checkVersionCompatibility_ok:
  "GetVersion w = Inr version \<Longrightarrow>
   snd (checkVersionCompatibility w expected) \<in>
     {Inr version, Inl ErrVersionIncompatible, Inl ErrBuildTagsMissing}"
  using assertVersionCompatible_cases [of version expected]
    assertBuildTagsEnabled_cases [of version "BuildTags expected"]
  by (auto simp: checkVersionCompatibility_def split: option.splits)

text \<open>
  Claim C8. When the version query fails with a gRPC status error of the code
  \<^verbatim>\<open>Unimplemented\<close>, the version check returns \<^verbatim>\<open>ErrVersionCheckNotImplemented\<close>; any
  other failure of the query yields the \<^verbatim>\<open>GetVersion error\<close> that wraps it, which is a
  different error value. The version check returns \<^verbatim>\<open>ErrVersionCheckNotImplemented\<close> in
  no other case.
\<close>

theorem checkVersionCompatibility_unimplemented:
  "(GetVersion w = Inl err \<longrightarrow>
      snd (checkVersionCompatibility w expected) =
        (if status_FromError err = (codes_Unimplemented, True)
         then Inl ErrVersionCheckNotImplemented else Inl (ErrGetVersion err))
      \<and> ErrVersionCheckNotImplemented \<noteq> ErrGetVersion err)
   \<and> (snd (checkVersionCompatibility w expected) = Inl ErrVersionCheckNotImplemented \<longleftrightarrow>
        (\<exists>msg. GetVersion w = Inl (StatusError codes_Unimplemented msg)))"
proof (cases "GetVersion w")
  case (Inl err)
  then show ?thesis
    by (cases err) (auto simp: checkVersionCompatibility_def codes_Unimplemented_def
        codes_Unknown_def)
next
  case (Inr version)
  with checkVersionCompatibility_ok [OF Inr, of expected] show ?thesis
    by auto
qed

theorem checkVersionCompatibility_unimplemented_witness:
  "GetVersion (exampleWorld\<lparr>GetVersion := Inl (StatusError 12 ''unknown service'')\<rparr>)
     = Inl (StatusError 12 ''unknown service'')
   \<and> snd (checkVersionCompatibility
        (exampleWorld\<lparr>GetVersion := Inl (StatusError 12 ''unknown service'')\<rparr>)
        minimalCompatibleVersion) = Inl ErrVersionCheckNotImplemented
   \<and> GetVersion (exampleWorld\<lparr>GetVersion := Inl (StatusError 14 ''unavailable'')\<rparr>)
     = Inl (StatusError 14 ''unavailable'')
   \<and> snd (checkVersionCompatibility
        (exampleWorld\<lparr>GetVersion := Inl (StatusError 14 ''unavailable'')\<rparr>)
        minimalCompatibleVersion) = Inl (ErrGetVersion (StatusError 14 ''unavailable''))"
  using
    checkVersionCompatibility_unimplemented
      [of "exampleWorld\<lparr>GetVersion := Inl (StatusError 12 ''unknown service'')\<rparr>"
          "StatusError 12 ''unknown service''" minimalCompatibleVersion]
    checkVersionCompatibility_unimplemented
      [of "exampleWorld\<lparr>GetVersion := Inl (StatusError 14 ''unavailable'')\<rparr>"
          "StatusError 14 ''unavailable''" minimalCompatibleVersion]
  by (simp add: exampleWorld_def codes_Unimplemented_def)

subsection \<open>The compatibility check closes the connection when it fails\<close>

lemma checkLndCompatibility_error:
  assumes "checkLndCompatibility w i conn cp mac net minV = (evs, Inl e)"
  shows "evs \<noteq> [] \<and> last evs = EvConnClose \<and> count_list evs EvConnClose = 1
     \<and> (e = ErrVersionRequired minV \<or> (\<exists>e'. e = ErrCompatibilityCheck e'))"
  using assms checkVersionCompatibility_events [of w minV]
  by (auto simp: checkLndCompatibility_def onErr_def
      split: sum.splits if_splits prod.splits)

lemma checkLndCompatibility_success:
  assumes "checkLndCompatibility w i conn cp mac net minV = (evs, Inr r)"
  shows "evs = [EvGetInfo (NoTimeout Background), EvGetVersion]"
  using assms checkVersionCompatibility_events [of w minV]
  by (auto simp: checkLndCompatibility_def onErr_def
      split: sum.splits if_splits prod.splits)

lemma checkLndCompatibility_fails_iff:
  "(\<exists>e. snd (checkLndCompatibility w i conn cp mac net minV) = Inl e) \<longleftrightarrow>
     (\<exists>err. GetInfo w i = Inl err)
     \<or> (\<exists>info. GetInfo w i = Inr info \<and> net \<noteq> InfoNetwork info)
     \<or> (\<exists>err. snd (checkVersionCompatibility w minV) = Inl err)"
  by (auto simp: checkLndCompatibility_def onErr_def
      split: sum.splits if_splits prod.splits)

text \<open>
  Claim C4. The compatibility check fails when the \<^verbatim>\<open>GetInfo\<close> query fails, when the
  node's network is not the expected one, or when the version check fails. Whenever it
  fails, closing the connection is the last thing it does before it returns the error,
  and it closes the connection once; when it succeeds it does not close the connection.
\<close>

theorem checkLndCompatibility_closes_on_failure:
  "((\<exists>err. GetInfo w i = Inl err)
      \<or> (\<exists>info. GetInfo w i = Inr info \<and> net \<noteq> InfoNetwork info)
      \<or> (\<exists>err. snd (checkVersionCompatibility w minV) = Inl err)
     \<longrightarrow> (\<exists>e. snd (checkLndCompatibility w i conn cp mac net minV) = Inl e))
   \<and> ((\<exists>e. snd (checkLndCompatibility w i conn cp mac net minV) = Inl e)
     \<longrightarrow> fst (checkLndCompatibility w i conn cp mac net minV) \<noteq> []
       \<and> last (fst (checkLndCompatibility w i conn cp mac net minV)) = EvConnClose
       \<and> count_list (fst (checkLndCompatibility w i conn cp mac net minV)) EvConnClose = 1)
   \<and> ((\<exists>r. snd (checkLndCompatibility w i conn cp mac net minV) = Inr r)
     \<longrightarrow> EvConnClose \<notin> set (fst (checkLndCompatibility w i conn cp mac net minV)))"
proof (intro conjI impI)
  assume "(\<exists>err. GetInfo w i = Inl err)
      \<or> (\<exists>info. GetInfo w i = Inr info \<and> net \<noteq> InfoNetwork info)
      \<or> (\<exists>err. snd (checkVersionCompatibility w minV) = Inl err)"
  then show "\<exists>e. snd (checkLndCompatibility w i conn cp mac net minV) = Inl e"
    by (simp only: checkLndCompatibility_fails_iff)
next
  assume "\<exists>e. snd (checkLndCompatibility w i conn cp mac net minV) = Inl e"
  then obtain evs e where "checkLndCompatibility w i conn cp mac net minV = (evs, Inl e)"
    by (metis prod.collapse)
  from checkLndCompatibility_error [OF this] this
  show "fst (checkLndCompatibility w i conn cp mac net minV) \<noteq> []"
    and "last (fst (checkLndCompatibility w i conn cp mac net minV)) = EvConnClose"
    and "count_list (fst (checkLndCompatibility w i conn cp mac net minV)) EvConnClose = 1"
    by simp_all
next
  assume "\<exists>r. snd (checkLndCompatibility w i conn cp mac net minV) = Inr r"
  then obtain evs r where "checkLndCompatibility w i conn cp mac net minV = (evs, Inr r)"
    by (metis prod.collapse)
  from checkLndCompatibility_success [OF this] this
  show "EvConnClose \<notin> set (fst (checkLndCompatibility w i conn cp mac net minV))"
    by simp
qed

text \<open>
  A node on testnet where mainnet is expected: the check queries the node, closes the
  connection and returns the error. The example node itself passes, and the connection
  stays open.
\<close>

theorem checkLndCompatibility_closes_on_failure_witness:
  "checkLndCompatibility exampleWorld 0 1 ''testnet'' ''readonly'' ''testnet''
     minimalCompatibleVersion
     = ([EvGetInfo (NoTimeout Background), EvConnClose],
        Inl (ErrCompatibilityCheck (ErrNetworkMismatch ''testnet'' ''mainnet'')))
   \<and> checkLndCompatibility exampleWorld 0 1 ''mainnet'' ''readonly'' ''mainnet''
     minimalCompatibleVersion
     = ([EvGetInfo (NoTimeout Background), EvGetVersion], Inr (''alice'', [2, 3], exampleVersion))"
  using
    checkLndCompatibility_closes_on_failure
      [of exampleWorld 0 "''testnet''" minimalCompatibleVersion 1 "''testnet''" "''readonly''"]
    checkLndCompatibility_closes_on_failure
      [of exampleWorld 0 "''mainnet''" minimalCompatibleVersion 1 "''mainnet''" "''readonly''"]
  by (simp add: checkLndCompatibility_def checkVersionCompatibility_def onErr_def
      exampleWorld_def exampleVersion_def minimalCompatibleVersion_def DefaultBuildTags_def
      assertVersionCompatible_def assertBuildTagsEnabled_def)

subsection \<open>Activation of the clients and teardown\<close>

lemma activateServices_no_lightning:
  "\<not> lightning perms \<Longrightarrow>
   activateServices conn cp a k v pouch perms = Inl ErrLightningPermissions"
  by (simp add: activateServices_def)

lemma activateServices_error:
  "activateServices conn cp a k v pouch perms = Inl e \<Longrightarrow>
   e = ErrLightningPermissions \<and> \<not> lightning perms"
  by (auto simp: activateServices_def Let_def split: if_splits)

lemma activateServices_registry:
  assumes "activateServices conn cp a k v pouch perms = Inr s"
  shows "lightning perms" and "permissions (LndServices s) = perms"
    and "registryMatches perms (LndServices s)"
    and "macaroons (LndServices s) = pouch"
    and "cleanupFuncs s =
       LightningClient conn cp (adminMac pouch)
       # (if chainNotifier perms then [ChainNotifierClient conn (chainMac pouch)] else [])
       @ (if invoices perms then [InvoicesClient conn (invoiceMac pouch)] else [])"
  using assms
  by (auto simp: activateServices_def Let_def registryMatches_def split: if_splits)

lemma activateServices_lightning:
  "lightning perms \<Longrightarrow> \<exists>s. activateServices conn cp a k v pouch perms = Inr s"
  by (simp add: activateServices_def Let_def)

lemma runCleanupFuncs_map: "runCleanupFuncs fs = map EvWaitForFinished fs"
  by (induction fs) simp_all

lemma Close_events: "Close s = EvConnClose # map EvWaitForFinished (cleanupFuncs s)"
  by (simp add: Close_def cleanup_def runCleanupFuncs_map)

text \<open>
  Claim C3. Whatever the permission set, the shutdown hooks registered by the activation
  are, in this order, the one of the lightning client, the one of the chain notifier
  client when that client is enabled and the one of the invoices client when that client
  is enabled. \<^verbatim>\<open>Close\<close> first closes the connection, once, and then runs exactly these
  hooks in that order: each registered hook once, and no other.
\<close>

theorem Close_runs_every_hook_once:
  assumes "activateServices conn cp a k v pouch perms = Inr s"
  shows "cleanupFuncs s =
       LightningClient conn cp (adminMac pouch)
       # (if chainNotifier perms then [ChainNotifierClient conn (chainMac pouch)] else [])
       @ (if invoices perms then [InvoicesClient conn (invoiceMac pouch)] else [])
     \<and> Close s = EvConnClose # map EvWaitForFinished (cleanupFuncs s)
     \<and> count_list (Close s) EvConnClose = 1
     \<and> (\<forall>c. count_list (Close s) (EvWaitForFinished c)
            = (if c \<in> set (cleanupFuncs s) then 1 else 0))"
  using activateServices_registry(5) [OF assms]
  by (simp add: Close_events)

theorem Close_runs_every_hook_once_witness:
  "activateServices 1 ''mainnet'' ''alice'' [2, 3] exampleVersion examplePouch examplePermissions
     = Inr exampleServices
   \<and> Close exampleServices
     = [EvConnClose, EvWaitForFinished (LightningClient 1 ''mainnet'' ''admin''),
        EvWaitForFinished (ChainNotifierClient 1 ''chainnotifier'')]
   \<and> count_list (Close exampleServices) (EvWaitForFinished (InvoicesClient 1 ''invoices'')) = 0"
proof -
  have act: "activateServices 1 ''mainnet'' ''alice'' [2, 3] exampleVersion examplePouch
               examplePermissions = Inr exampleServices"
    by code_simp
  note hooks = Close_runs_every_hook_once [OF act]
  from hooks have events:
    "Close exampleServices = EvConnClose # map EvWaitForFinished (cleanupFuncs exampleServices)"
    by blast
  from hooks have invoices_hook:
    "count_list (Close exampleServices) (EvWaitForFinished (InvoicesClient 1 ''invoices''))
       = (if InvoicesClient 1 ''invoices'' \<in> set (cleanupFuncs exampleServices) then 1 else 0)"
    by blast
  have funcs: "cleanupFuncs exampleServices
      = [LightningClient 1 ''mainnet'' ''admin'', ChainNotifierClient 1 ''chainnotifier'']"
    by (simp add: exampleServices_def)
  from act events invoices_hook funcs show ?thesis
    by simp
qed

subsection \<open>The stages of the bootstrap\<close>

lemma getClientConn_events:
  assumes "getClientConn w cfg = (evs, r)"
  shows "EvConnClose \<notin> set evs"
    and "\<And>conn. r = Inr conn \<Longrightarrow> EvDial (LndAddress cfg) \<in> set evs"
    and "\<And>e. r = Inl e \<Longrightarrow> (\<exists>e'. e = ErrLoadTLS e') \<or> (\<exists>e'. e = ErrConnect e')"
  using assms
  by (auto simp: getClientConn_def loadTlsFromFile_def loadRawTls_def Let_def
      split: option.splits sum.splits prod.splits if_splits)

lemma loadReadonlyMac_events:
  assumes "loadReadonlyMac w cfg dir = (evs, r)"
  shows "EvConnClose \<notin> set evs" and "\<And>e. r = Inl e \<Longrightarrow> \<exists>e'. e = External e'"
  using assms
  by (auto simp: loadReadonlyMac_def split: option.splits sum.splits)

lemma loadMacaroonsFromDirectory_error:
  "loadMacaroonsFromDirectory w cfg = Inl e \<Longrightarrow> e = ErrUnsupportedNetwork (Network cfg)"
  by (auto simp: loadMacaroonsFromDirectory_def split: if_splits)

lemma finishBootstrap_error:
  assumes "finishBootstrap w fuel cfg evs s = Some (evs', Inl e)"
  shows "chainSyncFailure e" and "EvConnClose \<in> set evs'" and "set evs \<subseteq> set evs'"
  using assms
  by (auto simp: finishBootstrap_def cleanup_def split: if_splits option.splits prod.splits)

lemma finishBootstrap_success:
  assumes "finishBootstrap w fuel cfg evs s = Some (evs', Inr s')"
  shows "s' = s"
  using assms
  by (auto simp: finishBootstrap_def split: if_splits option.splits prod.splits)

lemma postDialFailure_disjoint:
  "postDialFailure e \<Longrightarrow> \<not> compatibilityFailure e \<and> \<not> chainSyncFailure e"
  by (cases e) simp_all

lemma bootstrapOnConn_error:
  assumes run: "bootstrapOnConn w fuel cfg minV dir evs conn = Some (evs', Inl e)"
    and open_conn: "EvConnClose \<notin> set evs"
  shows "set evs \<subseteq> set evs'"
    and "postDialFailure e \<or> compatibilityFailure e \<or> chainSyncFailure e"
    and "EvConnClose \<in> set evs' \<longleftrightarrow> compatibilityFailure e \<or> chainSyncFailure e"
proof -
  show "set evs \<subseteq> set evs'"
    using run
    by (auto simp: bootstrapOnConn_def split: sum.splits prod.splits if_splits
        dest!: finishBootstrap_error(3))
  have "(postDialFailure e \<or> compatibilityFailure e \<or> chainSyncFailure e)
     \<and> (EvConnClose \<in> set evs' \<longleftrightarrow> compatibilityFailure e \<or> chainSyncFailure e)"
  proof (cases "Network_ChainParams w (Network cfg)")
    case (Inl err)
    with run open_conn show ?thesis by (auto simp: bootstrapOnConn_def)
  next
    case cp: (Inr chainParams)
    obtain evs2 r2 where mac: "loadReadonlyMac w cfg dir = (evs2, r2)"
      by (cases "loadReadonlyMac w cfg dir")
    note mac_ev = loadReadonlyMac_events [OF mac]
    show ?thesis
    proof (cases r2)
      case (Inl loadMacErr)
      with run cp mac open_conn mac_ev show ?thesis
        by (auto simp: bootstrapOnConn_def)
    next
      case ro: (Inr roMac)
      show ?thesis
      proof (cases "checkMacaroonPermissions w roMac")
        case False
        with run cp mac ro open_conn mac_ev show ?thesis
          by (auto simp: bootstrapOnConn_def)
      next
        case perm: True
        obtain evs3 r3 where
          compat: "checkLndCompatibility w 0 conn chainParams roMac (Network cfg) minV
                     = (evs3, r3)"
          by (cases "checkLndCompatibility w 0 conn chainParams roMac (Network cfg) minV")
        show ?thesis
        proof (cases r3)
          case (Inl err)
          with checkLndCompatibility_error
                 [of w 0 conn chainParams roMac "Network cfg" minV evs3 err]
            compat run cp mac ro perm
          show ?thesis
            by (auto simp: bootstrapOnConn_def)
        next
          case ok: (Inr triple)
          obtain nodeAlias nodeKey version where triple: "triple = (nodeAlias, nodeKey, version)"
            by (cases triple)
          from checkLndCompatibility_success
                 [of w 0 conn chainParams roMac "Network cfg" minV evs3 triple]
            compat ok
          have evs3: "evs3 = [EvGetInfo (NoTimeout Background), EvGetVersion]" by simp
          show ?thesis
          proof (cases "newMacaroonPouch w dir (CustomMacaroonPath cfg) (CustomMacaroon cfg)")
            case (Inl err)
            with run cp mac ro perm compat ok triple evs3 open_conn mac_ev show ?thesis
              by (auto simp: bootstrapOnConn_def)
          next
            case pouch: (Inr pouch)
            show ?thesis
            proof (cases "activateServices conn chainParams nodeAlias nodeKey version pouch
                            (loadAvailablePermissions w pouch)")
              case (Inl err)
              with activateServices_error [OF Inl]
                run cp mac ro perm compat ok triple evs3 pouch open_conn mac_ev show ?thesis
                by (auto simp: bootstrapOnConn_def)
            next
              case (Inr services)
              with run cp mac ro perm compat ok triple pouch
              have "finishBootstrap w fuel cfg (evs @ evs2 @ evs3 @ [EvNewMacaroonPouch]) services
                      = Some (evs', Inl e)"
                by (simp add: bootstrapOnConn_def)
              from finishBootstrap_error [OF this] show ?thesis by simp
            qed
          qed
        qed
      qed
    qed
  qed
  then show "postDialFailure e \<or> compatibilityFailure e \<or> chainSyncFailure e"
    and "EvConnClose \<in> set evs' \<longleftrightarrow> compatibilityFailure e \<or> chainSyncFailure e"
    by simp_all
qed

lemma bootstrapOnConn_success:
  assumes "bootstrapOnConn w fuel cfg minV dir evs conn = Some (evs', Inr s)"
  shows "\<exists>cp a k v pouch.
           activateServices conn cp a k v pouch (loadAvailablePermissions w pouch) = Inr s"
  using assms
  by (auto simp: bootstrapOnConn_def split: sum.splits prod.splits if_splits
      dest!: finishBootstrap_success) blast

text \<open>
  Every error of \<^verbatim>\<open>NewLndServices\<close>, with what has happened by then: the conflict of the
  macaroon sources and the unsupported network come before anything is touched; a
  failure to load the credentials or to dial leaves nothing to close; every later
  failure comes after the dial, and the connection has been closed exactly for the
  failures of the compatibility check and of the wait for chain sync.
\<close>

lemma NewLndServices_error:
  assumes run: "NewLndServices w fuel cfg = Some (evs, Inl e)"
  shows "(e = ErrMacaroonSourceConflict \<and> evs = []
            \<and> CustomMacaroon cfg = None \<and> MacaroonDir cfg \<noteq> '''' \<and> CustomMacaroonPath cfg \<noteq> '''')
         \<or> (e = ErrUnsupportedNetwork (Network cfg) \<and> evs = [])
         \<or> ((\<exists>e'. e = ErrLoadTLS e') \<or> (\<exists>e'. e = ErrConnect e')) \<and> EvConnClose \<notin> set evs
         \<or> (postDialFailure e \<or> compatibilityFailure e \<or> chainSyncFailure e)
            \<and> EvDial (LndAddress cfg) \<in> set evs
            \<and> (EvConnClose \<in> set evs \<longleftrightarrow> compatibilityFailure e \<or> chainSyncFailure e)"
proof -
  define cfg' where "cfg' = cfg\<lparr>Dialer := Some (case Dialer cfg of
                      None \<Rightarrow> ClientAddressDialer defaultRPCPort | Some d \<Rightarrow> d),
      CheckVersion := Some (case CheckVersion cfg of
                          None \<Rightarrow> minimalCompatibleVersion | Some v \<Rightarrow> v)\<rparr>"
  define minV where "minV = (case CheckVersion cfg of
                          None \<Rightarrow> minimalCompatibleVersion | Some v \<Rightarrow> v)"
  have fields: "CustomMacaroon cfg' = CustomMacaroon cfg" "MacaroonDir cfg' = MacaroonDir cfg"
    "CustomMacaroonPath cfg' = CustomMacaroonPath cfg" "LndAddress cfg' = LndAddress cfg"
    "Network cfg' = Network cfg"
    by (simp_all add: cfg'_def)
  have unfold: "NewLndServices w fuel cfg =
      (if CustomMacaroon cfg = None \<and> (MacaroonDir cfg \<noteq> '''' \<and> CustomMacaroonPath cfg \<noteq> '''')
       then Some ([], Inl ErrMacaroonSourceConflict)
       else
        (case (if CustomMacaroon cfg = None then loadMacaroonsFromDirectory w cfg'
               else Inr '''') of
           Inl loadMacDirErr \<Rightarrow> Some ([], Inl loadMacDirErr)
         | Inr macaroonDir \<Rightarrow>
             (case getClientConn w cfg' of
                (evs, Inl err) \<Rightarrow> Some (evs, Inl err)
              | (evs, Inr conn) \<Rightarrow>
                  bootstrapOnConn w fuel cfg' minV macaroonDir evs conn)))"
    unfolding NewLndServices_def Let_def cfg'_def minV_def by simp
  show ?thesis
  proof (cases "CustomMacaroon cfg = None
                \<and> (MacaroonDir cfg \<noteq> '''' \<and> CustomMacaroonPath cfg \<noteq> '''')")
    case True
    with run unfold show ?thesis by auto
  next
    case noconflict: False
    show ?thesis
    proof (cases "if CustomMacaroon cfg = None then loadMacaroonsFromDirectory w cfg'
                  else Inr ''''")
      case (Inl loadMacDirErr)
      then have "loadMacaroonsFromDirectory w cfg' = Inl loadMacDirErr"
        by (simp split: if_splits)
      from loadMacaroonsFromDirectory_error [OF this] Inl run unfold noconflict fields
      show ?thesis by auto
    next
      case dir: (Inr macaroonDir)
      obtain evs1 r1 where conn: "getClientConn w cfg' = (evs1, r1)"
        by (cases "getClientConn w cfg'")
      note conn_ev = getClientConn_events [OF conn]
      show ?thesis
      proof (cases r1)
        case (Inl err)
        with run unfold noconflict dir conn conn_ev(1) conn_ev(3) [of err]
        show ?thesis by auto
      next
        case (Inr c)
        with run unfold noconflict dir conn
        have boot: "bootstrapOnConn w fuel cfg' minV macaroonDir evs1 c = Some (evs, Inl e)"
          by simp
        from bootstrapOnConn_error [OF boot conn_ev(1)] conn_ev(2) [OF Inr] fields
        show ?thesis by auto
      qed
    qed
  qed
qed

lemma NewLndServices_success:
  assumes run: "NewLndServices w fuel cfg = Some (evs, Inr s)"
  shows "\<exists>conn cp a k v pouch.
           activateServices conn cp a k v pouch (loadAvailablePermissions w pouch) = Inr s"
  using run
  by (auto simp: NewLndServices_def Let_def split: sum.splits prod.splits if_splits
      dest!: bootstrapOnConn_success) blast+

subsection \<open>The registry and the permissions\<close>

text \<open>
  Claim C2. For every permission set: without the lightning permission the activation
  fails, so no registry is built; with it the activation succeeds, and in the registry
  the lightning client is present, each of the chain notifier, invoices, signer, wallet
  kit and router clients is present exactly when its permission flag is set, and the
  versioner is always present. Every registry that \<^verbatim>\<open>NewLndServices\<close> returns was built
  from the permissions resolved from its macaroon pouch, has the lightning permission
  and the lightning client, and agrees with these permissions in the same way.
\<close>

theorem NewLndServices_registry_matches_permissions:
  "(\<not> lightning perms \<longrightarrow>
      activateServices conn cp a k v pouch perms = Inl ErrLightningPermissions)
   \<and> (lightning perms \<longrightarrow> (\<exists>s. activateServices conn cp a k v pouch perms = Inr s))
   \<and> (\<forall>s. activateServices conn cp a k v pouch perms = Inr s \<longrightarrow>
        permissions (LndServices s) = perms \<and> registryMatches perms (LndServices s))
   \<and> (\<forall>evs s. NewLndServices w fuel cfg = Some (evs, Inr s) \<longrightarrow>
        permissions (LndServices s) = loadAvailablePermissions w (macaroons (LndServices s))
        \<and> lightning (permissions (LndServices s)) \<and> Client (LndServices s) \<noteq> None
        \<and> registryMatches (permissions (LndServices s)) (LndServices s))"
proof (intro conjI impI allI)
  assume "\<not> lightning perms"
  then show "activateServices conn cp a k v pouch perms = Inl ErrLightningPermissions"
    by (rule activateServices_no_lightning)
next
  assume "lightning perms"
  then show "\<exists>s. activateServices conn cp a k v pouch perms = Inr s"
    by (rule activateServices_lightning)
next
  fix s assume "activateServices conn cp a k v pouch perms = Inr s"
  from activateServices_registry(2,3) [OF this]
  show "permissions (LndServices s) = perms" and "registryMatches perms (LndServices s)" .
next
  fix evs s assume "NewLndServices w fuel cfg = Some (evs, Inr s)"
  from NewLndServices_success [OF this] obtain conn' cp' a' k' v' pouch' where
    act: "activateServices conn' cp' a' k' v' pouch' (loadAvailablePermissions w pouch') = Inr s"
    by blast
  from activateServices_registry(1,2,3,4) [OF act]
  show "permissions (LndServices s) = loadAvailablePermissions w (macaroons (LndServices s))"
    and "lightning (permissions (LndServices s))"
    and "Client (LndServices s) \<noteq> None"
    and "registryMatches (permissions (LndServices s)) (LndServices s)"
    by (simp_all add: registryMatches_def)
qed

theorem NewLndServices_registry_matches_permissions_witness:
  "activateServices 1 ''mainnet'' ''alice'' [2, 3] exampleVersion examplePouch
       (examplePermissions\<lparr>lightning := False\<rparr>) = Inl ErrLightningPermissions
   \<and> NewLndServices exampleWorld 5 exampleConfig
       = Some ([EvReadTLSFile ''/home/alice/.lnd/tls.cert'', EvDial ''localhost:10009'',
                EvLoadMacaroon ''/home/alice/.lnd/data/chain/bitcoin/mainnet''
                  ''readonly.macaroon'' '''',
                EvGetInfo (NoTimeout Background), EvGetVersion, EvNewMacaroonPouch],
               Inr exampleServices)
   \<and> permissions (LndServices exampleServices) = examplePermissions
   \<and> registryMatches examplePermissions (LndServices exampleServices)
   \<and> Client (LndServices exampleServices) = Some (LightningClient 1 ''mainnet'' ''admin'')
   \<and> WalletKit (LndServices exampleServices) = None"
proof -
  have no_core: "\<not> lightning (examplePermissions\<lparr>lightning := False\<rparr>)"
    by simp
  have run: "NewLndServices exampleWorld 5 exampleConfig
       = Some ([EvReadTLSFile ''/home/alice/.lnd/tls.cert'', EvDial ''localhost:10009'',
                EvLoadMacaroon ''/home/alice/.lnd/data/chain/bitcoin/mainnet''
                  ''readonly.macaroon'' '''',
                EvGetInfo (NoTimeout Background), EvGetVersion, EvNewMacaroonPouch],
               Inr exampleServices)"
    by code_simp
  from NewLndServices_registry_matches_permissions
         [of "examplePermissions\<lparr>lightning := False\<rparr>" 1 "''mainnet''" "''alice''" "[2, 3]"
             exampleVersion examplePouch exampleWorld 5 exampleConfig]
       no_core run
  show ?thesis
    by (simp add: exampleServices_def)
qed

subsection \<open>Failures of the bootstrap\<close>

text \<open>
  Claim C9. When no raw macaroon bytes are configured and both the macaroon directory and
  the custom macaroon path are set, \<^verbatim>\<open>NewLndServices\<close> returns the error of the
  conflicting macaroon sources and has caused no event at all by then: no file read, no
  dial, no RPC. When raw macaroon bytes are configured it never returns this error.
\<close>

theorem NewLndServices_macaroon_source_conflict:
  "(CustomMacaroon cfg = None \<and> MacaroonDir cfg \<noteq> '''' \<and> CustomMacaroonPath cfg \<noteq> ''''
      \<longrightarrow> NewLndServices w fuel cfg = Some ([], Inl ErrMacaroonSourceConflict))
   \<and> (CustomMacaroon cfg \<noteq> None
      \<longrightarrow> (\<forall>evs. NewLndServices w fuel cfg \<noteq> Some (evs, Inl ErrMacaroonSourceConflict)))"
proof (intro conjI impI allI)
  assume "CustomMacaroon cfg = None \<and> MacaroonDir cfg \<noteq> '''' \<and> CustomMacaroonPath cfg \<noteq> ''''"
  then show "NewLndServices w fuel cfg = Some ([], Inl ErrMacaroonSourceConflict)"
    by (simp add: NewLndServices_def Let_def)
next
  fix evs
  assume raw: "CustomMacaroon cfg \<noteq> None"
  show "NewLndServices w fuel cfg \<noteq> Some (evs, Inl ErrMacaroonSourceConflict)"
  proof
    assume "NewLndServices w fuel cfg = Some (evs, Inl ErrMacaroonSourceConflict)"
    from NewLndServices_error [OF this] raw show False by auto
  qed
qed

theorem NewLndServices_macaroon_source_conflict_witness:
  "NewLndServices exampleWorld 5
     (exampleConfig\<lparr>MacaroonDir := ''/macaroons'',
                    CustomMacaroonPath := ''/macaroons/admin.macaroon''\<rparr>)
     = Some ([], Inl ErrMacaroonSourceConflict)
   \<and> NewLndServices exampleWorld 5
     (exampleConfig\<lparr>MacaroonDir := ''/macaroons'',
                    CustomMacaroonPath := ''/macaroons/admin.macaroon'',
                    CustomMacaroon := Some [1, 2, 3]\<rparr>)
     = Some ([EvReadTLSFile ''/home/alice/.lnd/tls.cert'', EvDial ''localhost:10009'',
              EvGetInfo (NoTimeout Background), EvGetVersion, EvNewMacaroonPouch],
             Inr exampleServices)"
proof -
  have raw: "NewLndServices exampleWorld 5
     (exampleConfig\<lparr>MacaroonDir := ''/macaroons'',
                    CustomMacaroonPath := ''/macaroons/admin.macaroon'',
                    CustomMacaroon := Some [1, 2, 3]\<rparr>)
     = Some ([EvReadTLSFile ''/home/alice/.lnd/tls.cert'', EvDial ''localhost:10009'',
              EvGetInfo (NoTimeout Background), EvGetVersion, EvNewMacaroonPouch],
             Inr exampleServices)"
    by code_simp
  from NewLndServices_macaroon_source_conflict
         [of "exampleConfig\<lparr>MacaroonDir := ''/macaroons'',
                            CustomMacaroonPath := ''/macaroons/admin.macaroon''\<rparr>"
             exampleWorld 5]
       NewLndServices_macaroon_source_conflict
         [of "exampleConfig\<lparr>MacaroonDir := ''/macaroons'',
                            CustomMacaroonPath := ''/macaroons/admin.macaroon'',
                            CustomMacaroon := Some [1, 2, 3]\<rparr>"
             exampleWorld 5]
       raw
  show ?thesis
    by (simp add: exampleConfig_def)
qed

text \<open>
  Claim C10. Whenever \<^verbatim>\<open>NewLndServices\<close> returns one of the errors of the steps between
  the dial and the registry that lie outside the compatibility check (chain parameters or
  readonly macaroon not loaded, readonly permissions missing, macaroon pouch not loaded,
  lightning permission missing), the connection has been dialed and has not been closed.
  Among all its errors, the connection has been closed exactly for those of the
  compatibility check and of the wait for chain sync.
\<close>

theorem NewLndServices_leaves_connection_open:
  assumes "NewLndServices w fuel cfg = Some (evs, Inl e)"
  shows "(postDialFailure e \<longrightarrow> EvDial (LndAddress cfg) \<in> set evs \<and> EvConnClose \<notin> set evs)
     \<and> (EvConnClose \<in> set evs \<longleftrightarrow> compatibilityFailure e \<or> chainSyncFailure e)"
  using NewLndServices_error [OF assms] postDialFailure_disjoint [of e]
  by auto

text \<open>
  Three runs: the chain parameters cannot be resolved (connection left open), the
  lightning permission is missing (left open), the node is on another network (closed).
\<close>

theorem NewLndServices_leaves_connection_open_witness:
  "NewLndServices
     (exampleWorld\<lparr>Network_ChainParams := (\<lambda>n. Inl (PlainError ''unknown network''))\<rparr>)
     5 exampleConfig
     = Some ([EvReadTLSFile ''/home/alice/.lnd/tls.cert'', EvDial ''localhost:10009''],
             Inl (External (PlainError ''unknown network'')))
   \<and> NewLndServices
     (exampleWorld\<lparr>loadAvailablePermissions :=
         (\<lambda>p. examplePermissions\<lparr>lightning := False\<rparr>)\<rparr>)
     5 exampleConfig
     = Some ([EvReadTLSFile ''/home/alice/.lnd/tls.cert'', EvDial ''localhost:10009'',
              EvLoadMacaroon ''/home/alice/.lnd/data/chain/bitcoin/mainnet''
                ''readonly.macaroon'' '''',
              EvGetInfo (NoTimeout Background), EvGetVersion, EvNewMacaroonPouch],
             Inl ErrLightningPermissions)
   \<and> NewLndServices exampleWorld 5 (exampleConfig\<lparr>Network := ''testnet''\<rparr>)
     = Some ([EvReadTLSFile ''/home/alice/.lnd/tls.cert'', EvDial ''localhost:10009'',
              EvLoadMacaroon ''/home/alice/.lnd/data/chain/bitcoin/testnet''
                ''readonly.macaroon'' '''',
              EvGetInfo (NoTimeout Background), EvConnClose],
             Inl (ErrCompatibilityCheck (ErrNetworkMismatch ''testnet'' ''mainnet'')))"
proof -
  have chain: "NewLndServices
     (exampleWorld\<lparr>Network_ChainParams := (\<lambda>n. Inl (PlainError ''unknown network''))\<rparr>)
     5 exampleConfig
     = Some ([EvReadTLSFile ''/home/alice/.lnd/tls.cert'', EvDial ''localhost:10009''],
             Inl (External (PlainError ''unknown network'')))"
    by code_simp
  have core: "NewLndServices
     (exampleWorld\<lparr>loadAvailablePermissions :=
         (\<lambda>p. examplePermissions\<lparr>lightning := False\<rparr>)\<rparr>)
     5 exampleConfig
     = Some ([EvReadTLSFile ''/home/alice/.lnd/tls.cert'', EvDial ''localhost:10009'',
              EvLoadMacaroon ''/home/alice/.lnd/data/chain/bitcoin/mainnet''
                ''readonly.macaroon'' '''',
              EvGetInfo (NoTimeout Background), EvGetVersion, EvNewMacaroonPouch],
             Inl ErrLightningPermissions)"
    by code_simp
  have compat: "NewLndServices exampleWorld 5 (exampleConfig\<lparr>Network := ''testnet''\<rparr>)
     = Some ([EvReadTLSFile ''/home/alice/.lnd/tls.cert'', EvDial ''localhost:10009'',
              EvLoadMacaroon ''/home/alice/.lnd/data/chain/bitcoin/testnet''
                ''readonly.macaroon'' '''',
              EvGetInfo (NoTimeout Background), EvConnClose],
             Inl (ErrCompatibilityCheck (ErrNetworkMismatch ''testnet'' ''mainnet'')))"
    by code_simp
  from NewLndServices_leaves_connection_open [OF chain]
       NewLndServices_leaves_connection_open [OF core]
       NewLndServices_leaves_connection_open [OF compat]
       chain core compat
  show ?thesis by simp
qed

subsection \<open>The wait for chain sync\<close>

text \<open>
  One round of the polling loop, by the outcome of the query: a final poll ends the loop
  with its result, a poll that reports no sync is followed by the \<^verbatim>\<open>select\<close>, which either
  sleeps for the poll interval and goes on, or ends the loop with the error of the
  caller's context.
\<close>

lemma pollLoop_terminal:
  "\<not> pollNotSynced w i \<Longrightarrow>
   pollLoop w mainCtx (Suc fuel) i = Some ([EvGetInfo (WithTimeout mainCtx rpcTimeout)], pollResult w i)"
  by (auto simp: pollNotSynced_def pollResult_def split: sum.splits)

lemma pollLoop_sleep:
  "pollNotSynced w i \<Longrightarrow> ctx_Err mainCtx (callerSignal w i) = None \<Longrightarrow>
   pollLoop w mainCtx (Suc fuel) i =
     (case pollLoop w mainCtx fuel (Suc i) of
        None \<Rightarrow> None
      | Some (evs, r) \<Rightarrow>
          Some (EvGetInfo (WithTimeout mainCtx rpcTimeout) # EvTimeAfter chainSyncPollInterval # evs, r))"
  by (auto simp: pollNotSynced_def split: sum.splits)

lemma pollLoop_cancelled:
  "pollNotSynced w i \<Longrightarrow> ctx_Err mainCtx (callerSignal w i) = Some ce \<Longrightarrow>
   pollLoop w mainCtx (Suc fuel) i =
     Some ([EvGetInfo (WithTimeout mainCtx rpcTimeout), EvCtxDone], Some (ErrContext ce))"
  by (auto simp: pollNotSynced_def split: sum.splits)

declare pollLoop.simps(2) [simp del]

lemma pollLoop_first_terminal:
  "\<forall>j<k. pollNotSynced w (i + j) \<and> ctx_Err mainCtx (callerSignal w (i + j)) = None \<Longrightarrow>
   \<not> pollNotSynced w (i + k) \<Longrightarrow> k < fuel \<Longrightarrow>
   pollLoop w mainCtx fuel i =
     Some (pollRounds (WithTimeout mainCtx rpcTimeout) k @ [EvGetInfo (WithTimeout mainCtx rpcTimeout)],
           pollResult w (i + k))"
proof (induction k arbitrary: fuel i)
  case 0
  then obtain f where "fuel = Suc f" by (cases fuel) auto
  with 0 show ?case by (simp add: pollLoop_terminal pollRounds_def)
next
  case (Suc k)
  then obtain f where f: "fuel = Suc f" "k < f" by (cases fuel) auto
  from Suc.prems(1) have here: "pollNotSynced w i" "ctx_Err mainCtx (callerSignal w i) = None"
    by (metis add.right_neutral zero_less_Suc)+
  have rest: "\<forall>j<k. pollNotSynced w (Suc i + j) \<and> ctx_Err mainCtx (callerSignal w (Suc i + j)) = None"
    using Suc.prems(1) by (metis Suc_less_eq add_Suc_shift)
  have stop: "\<not> pollNotSynced w (Suc i + k)"
    using Suc.prems(2) by simp
  from Suc.IH [OF rest stop f(2)] show ?case
    by (simp add: f(1) pollLoop_sleep [OF here] pollRounds_def)
qed

lemma pollLoop_shape:
  "pollLoop w mainCtx fuel i = Some (evs, r) \<Longrightarrow>
   \<exists>k<fuel. (\<forall>j<k. pollNotSynced w (i + j) \<and> ctx_Err mainCtx (callerSignal w (i + j)) = None)
     \<and> ((\<not> pollNotSynced w (i + k)
          \<and> evs = pollRounds (WithTimeout mainCtx rpcTimeout) k @ [EvGetInfo (WithTimeout mainCtx rpcTimeout)]
          \<and> r = pollResult w (i + k))
        \<or> (pollNotSynced w (i + k)
          \<and> (\<exists>ce. ctx_Err mainCtx (callerSignal w (i + k)) = Some ce
               \<and> evs = pollRounds (WithTimeout mainCtx rpcTimeout) k @ [EvGetInfo (WithTimeout mainCtx rpcTimeout), EvCtxDone]
               \<and> r = Some (ErrContext ce))))"
proof (induction fuel arbitrary: i evs r)
  case 0
  then show ?case by simp
next
  case (Suc fuel)
  show ?case
  proof (cases "pollNotSynced w i")
    case False
    with Suc.prems have "evs = [EvGetInfo (WithTimeout mainCtx rpcTimeout)]" "r = pollResult w i"
      by (simp_all add: pollLoop_terminal)
    with False show ?thesis
      by (intro exI [of _ 0]) (simp add: pollRounds_def)
  next
    case True
    show ?thesis
    proof (cases "ctx_Err mainCtx (callerSignal w i)")
      case (Some ce)
      with True Suc.prems have "evs = [EvGetInfo (WithTimeout mainCtx rpcTimeout), EvCtxDone]" "r = Some (ErrContext ce)"
        by (simp_all add: pollLoop_cancelled)
      with True Some show ?thesis
        by (intro exI [of _ 0]) (simp add: pollRounds_def)
    next
      case None
      from Suc.prems obtain evs' where
        rec: "pollLoop w mainCtx fuel (Suc i) = Some (evs', r)"
        and evs: "evs = EvGetInfo (WithTimeout mainCtx rpcTimeout) # EvTimeAfter chainSyncPollInterval # evs'"
        by (auto simp: pollLoop_sleep [OF True None] split: option.splits)
      from Suc.IH [OF rec] obtain k where k: "k < fuel"
        "\<forall>j<k. pollNotSynced w (Suc i + j) \<and> ctx_Err mainCtx (callerSignal w (Suc i + j)) = None"
        "(\<not> pollNotSynced w (Suc i + k)
          \<and> evs' = pollRounds (WithTimeout mainCtx rpcTimeout) k @ [EvGetInfo (WithTimeout mainCtx rpcTimeout)]
          \<and> r = pollResult w (Suc i + k))
        \<or> (pollNotSynced w (Suc i + k)
          \<and> (\<exists>ce. ctx_Err mainCtx (callerSignal w (Suc i + k)) = Some ce
               \<and> evs' = pollRounds (WithTimeout mainCtx rpcTimeout) k @ [EvGetInfo (WithTimeout mainCtx rpcTimeout), EvCtxDone]
               \<and> r = Some (ErrContext ce)))"
        by blast
      have all: "\<forall>j<Suc k. pollNotSynced w (i + j) \<and> ctx_Err mainCtx (callerSignal w (i + j)) = None"
      proof (intro allI impI)
        fix j assume "j < Suc k"
        show "pollNotSynced w (i + j) \<and> ctx_Err mainCtx (callerSignal w (i + j)) = None"
        proof (cases j)
          case 0
          with True None show ?thesis by simp
        next
          case (Suc j')
          with \<open>j < Suc k\<close> k(2) show ?thesis by simp
        qed
      qed
      from k(1) k(3) all evs show ?thesis
        by (intro exI [of _ "Suc k"]) (simp add: pollRounds_def)
    qed
  qed
qed

lemma set_pollRounds:
  "set (pollRounds q k) \<subseteq> {EvGetInfo q, EvTimeAfter chainSyncPollInterval}"
  by (induction k) (auto simp: pollRounds_def)


text \<open>
  Claim C6. Take the polls of the wait in their order, from the \<open>i\<close>-th \<^verbatim>\<open>GetInfo\<close> call
  on. If the first \<open>k\<close> of them report no sync, the caller's context is not done during
  the waits that follow them, and the next poll is final (it reports sync, or it
  fails), then the wait returns at that poll, with no error when it reports sync and
  with the error of the poll, wrapped as the error of the \<^verbatim>\<open>GetInfo\<close> call, when it
  fails; before it, each of the \<open>k\<close> polls was followed by one sleep of the poll interval,
  and nothing else happened. Conversely, every wait that returns consists of such rounds
  of a poll without sync and a sleep, and then of one more poll: either a final poll,
  which decides the result and is followed by nothing (a failed poll is never retried),
  or a poll without sync after which the caller's context is done.
\<close>

theorem waitForChainSync_ends_at_first_final_poll:
  assumes "mainCtx = (case ctx of None \<Rightarrow> Background | Some c \<Rightarrow> c)"
    and "qctx = WithTimeout mainCtx rpcTimeout"
  shows "((\<forall>j<k. pollNotSynced w (i + j) \<and> ctx_Err mainCtx (callerSignal w (i + j)) = None)
          \<and> \<not> pollNotSynced w (i + k) \<and> k < fuel
        \<longrightarrow> waitForChainSync w fuel i s ctx
              = Some (pollRounds qctx k @ [EvGetInfo qctx], pollResult w (i + k)))
     \<and> (\<forall>evs r. waitForChainSync w fuel i s ctx = Some (evs, r) \<longrightarrow>
          (\<exists>n<fuel.
             (\<forall>j<n. pollNotSynced w (i + j) \<and> ctx_Err mainCtx (callerSignal w (i + j)) = None)
             \<and> ((\<not> pollNotSynced w (i + n)
                  \<and> evs = pollRounds qctx n @ [EvGetInfo qctx] \<and> r = pollResult w (i + n))
                \<or> (pollNotSynced w (i + n)
                  \<and> (\<exists>ce. ctx_Err mainCtx (callerSignal w (i + n)) = Some ce
                       \<and> evs = pollRounds qctx n @ [EvGetInfo qctx, EvCtxDone]
                       \<and> r = Some (ErrContext ce))))))"
proof (intro conjI impI allI)
  assume "(\<forall>j<k. pollNotSynced w (i + j) \<and> ctx_Err mainCtx (callerSignal w (i + j)) = None)
          \<and> \<not> pollNotSynced w (i + k) \<and> k < fuel"
  then show "waitForChainSync w fuel i s ctx
              = Some (pollRounds qctx k @ [EvGetInfo qctx], pollResult w (i + k))"
    using assms by (simp add: waitForChainSync_def pollLoop_first_terminal)
next
  fix evs r
  assume "waitForChainSync w fuel i s ctx = Some (evs, r)"
  then have "pollLoop w mainCtx fuel i = Some (evs, r)"
    using assms by (simp add: waitForChainSync_def)
  from pollLoop_shape [OF this] show "\<exists>n<fuel.
             (\<forall>j<n. pollNotSynced w (i + j) \<and> ctx_Err mainCtx (callerSignal w (i + j)) = None)
             \<and> ((\<not> pollNotSynced w (i + n)
                  \<and> evs = pollRounds qctx n @ [EvGetInfo qctx] \<and> r = pollResult w (i + n))
                \<or> (pollNotSynced w (i + n)
                  \<and> (\<exists>ce. ctx_Err mainCtx (callerSignal w (i + n)) = Some ce
                       \<and> evs = pollRounds qctx n @ [EvGetInfo qctx, EvCtxDone]
                       \<and> r = Some (ErrContext ce))))"
    using assms(2) by simp
qed

text \<open>
  The polls not synced, not synced, synced: three queries and two sleeps, no error. A
  first poll that fails: one query, and its error.
\<close>

theorem waitForChainSync_ends_at_first_final_poll_witness:
  "waitForChainSync exampleWorld 5 1 exampleServices None
     = Some ([EvGetInfo (WithTimeout Background 30), EvTimeAfter 5,
              EvGetInfo (WithTimeout Background 30), EvTimeAfter 5,
              EvGetInfo (WithTimeout Background 30)], None)
   \<and> waitForChainSync (exampleWorld\<lparr>GetInfo := (\<lambda>i. Inl (PlainError ''connection reset''))\<rparr>)
       5 1 exampleServices None
     = Some ([EvGetInfo (WithTimeout Background 30)],
             Some (ErrGetInfoCall (PlainError ''connection reset'')))"
proof -
  have ctx: "Background = (case None of None \<Rightarrow> Background | Some c \<Rightarrow> c)"
    by simp
  have q: "WithTimeout Background 30 = WithTimeout Background rpcTimeout"
    by (simp add: rpcTimeout_def)
  have polls: "(\<forall>j<2. pollNotSynced exampleWorld (1 + j)
                  \<and> ctx_Err Background (callerSignal exampleWorld (1 + j)) = None)
               \<and> \<not> pollNotSynced exampleWorld (1 + 2) \<and> (2::nat) < 5"
    by (simp add: pollNotSynced_def exampleWorld_def less_2_cases_iff)
  have failed: "(\<forall>j<0. pollNotSynced
                    (exampleWorld\<lparr>GetInfo := (\<lambda>i. Inl (PlainError ''connection reset''))\<rparr>) (1 + j)
                  \<and> ctx_Err Background (callerSignal
                    (exampleWorld\<lparr>GetInfo := (\<lambda>i. Inl (PlainError ''connection reset''))\<rparr>)
                    (1 + j)) = None)
               \<and> \<not> pollNotSynced
                    (exampleWorld\<lparr>GetInfo := (\<lambda>i. Inl (PlainError ''connection reset''))\<rparr>) (1 + 0)
               \<and> (0::nat) < 5"
    by (simp add: pollNotSynced_def)
  from waitForChainSync_ends_at_first_final_poll
         [OF ctx q, of 2 exampleWorld 1 5 exampleServices] polls
       waitForChainSync_ends_at_first_final_poll
         [OF ctx q, of 0 "exampleWorld\<lparr>GetInfo := (\<lambda>i. Inl (PlainError ''connection reset''))\<rparr>"
            1 5 exampleServices] failed
  show ?thesis
    by (simp add: pollRounds_def pollResult_def exampleWorld_def chainSyncPollInterval_def
        numeral_2_eq_2)
qed

text \<open>
  Claim C5, as amended. The wait itself looks at the caller's context only in the
  \<^verbatim>\<open>select\<close> after a poll that reported no sync, and when it finds the context done it
  ends without another poll. But every status query of the wait runs under the context
  \<^verbatim>\<open>context.WithTimeout(mainCtx, rpcTimeout)\<close>, a child of the caller's context: the
  context of a query in flight is done as soon as the caller's context is done or the
  timeout has elapsed, whichever happens first. Only when no context is passed in is the
  timeout the one thing that ends it.
\<close>

theorem waitForChainSync_query_context:
  assumes run: "waitForChainSync w fuel i s ctx = Some (evs, r)"
    and mainCtx: "mainCtx = (case ctx of None \<Rightarrow> Background | Some c \<Rightarrow> c)"
  shows "(\<forall>c. EvGetInfo c \<in> set evs \<longrightarrow>
            c = WithTimeout mainCtx rpcTimeout
            \<and> (\<forall>caller elapsed. call_ctx_Err c caller elapsed \<noteq> None \<longleftrightarrow>
                  ctx_Err mainCtx caller \<noteq> None \<or> rpcTimeout \<le> elapsed))
     \<and> (ctx = None \<longrightarrow>
          (\<forall>c caller elapsed. EvGetInfo c \<in> set evs \<longrightarrow>
             (call_ctx_Err c caller elapsed \<noteq> None \<longleftrightarrow> rpcTimeout \<le> elapsed)))
     \<and> (ctx = Some CallerCtx \<longrightarrow>
          (\<forall>c caller elapsed. EvGetInfo c \<in> set evs \<longrightarrow>
             (call_ctx_Err c caller elapsed \<noteq> None \<longleftrightarrow> caller \<noteq> None \<or> rpcTimeout \<le> elapsed)))
     \<and> (EvCtxDone \<in> set evs \<longrightarrow>
          (\<exists>n. pollNotSynced w (i + n)
             \<and> evs = pollRounds (WithTimeout mainCtx rpcTimeout) n
                     @ [EvGetInfo (WithTimeout mainCtx rpcTimeout), EvCtxDone]))"
proof -
  let ?q = "WithTimeout mainCtx rpcTimeout"
  from run mainCtx have "pollLoop w mainCtx fuel i = Some (evs, r)"
    by (simp add: waitForChainSync_def)
  from pollLoop_shape [OF this] obtain n where
    shape: "(\<not> pollNotSynced w (i + n) \<and> evs = pollRounds ?q n @ [EvGetInfo ?q])
        \<or> (pollNotSynced w (i + n) \<and> evs = pollRounds ?q n @ [EvGetInfo ?q, EvCtxDone])"
    by blast
  have queries: "c = ?q" if "EvGetInfo c \<in> set evs" for c
    using that shape set_pollRounds [of ?q n] by auto
  have done_iff: "call_ctx_Err ?q caller elapsed \<noteq> None \<longleftrightarrow>
      ctx_Err mainCtx caller \<noteq> None \<or> rpcTimeout \<le> elapsed" for caller elapsed
    by (simp split: option.splits)
  have cancel: "\<exists>n. pollNotSynced w (i + n) \<and> evs = pollRounds ?q n @ [EvGetInfo ?q, EvCtxDone]"
    if "EvCtxDone \<in> set evs"
    using that shape set_pollRounds [of ?q n] by auto
  show ?thesis
  proof (intro conjI impI allI)
    fix c assume "EvGetInfo c \<in> set evs"
    then show "c = ?q" by (rule queries)
  next
    fix c caller elapsed assume "EvGetInfo c \<in> set evs"
    then have "c = ?q" by (rule queries)
    then show "call_ctx_Err c caller elapsed \<noteq> None \<longleftrightarrow>
                  ctx_Err mainCtx caller \<noteq> None \<or> rpcTimeout \<le> elapsed"
      using done_iff by simp
  next
    fix c caller elapsed assume "ctx = None" "EvGetInfo c \<in> set evs"
    with queries [of c] mainCtx done_iff [of caller elapsed]
    show "call_ctx_Err c caller elapsed \<noteq> None \<longleftrightarrow> rpcTimeout \<le> elapsed"
      by simp
  next
    fix c caller elapsed assume "ctx = Some CallerCtx" "EvGetInfo c \<in> set evs"
    with queries [of c] mainCtx done_iff [of caller elapsed]
    show "call_ctx_Err c caller elapsed \<noteq> None \<longleftrightarrow> caller \<noteq> None \<or> rpcTimeout \<le> elapsed"
      by simp
  next
    assume "EvCtxDone \<in> set evs"
    then show "\<exists>n. pollNotSynced w (i + n)
             \<and> evs = pollRounds (WithTimeout mainCtx rpcTimeout) n
                     @ [EvGetInfo (WithTimeout mainCtx rpcTimeout), EvCtxDone]"
      by (rule cancel)
  qed
qed

text \<open>
  A caller's context that is cancelled during the second wait between polls: the wait
  ends there. The context of its queries is not done after 29 seconds while the caller's
  context is not done, it is done after 30 seconds, and it is done at once when the
  caller's context is cancelled.
\<close>

theorem waitForChainSync_query_context_witness:
  "waitForChainSync (exampleWorld\<lparr>callerSignal := (\<lambda>i. if i = 2 then Some Canceled else None)\<rparr>)
       5 1 exampleServices (Some CallerCtx)
     = Some ([EvGetInfo (WithTimeout CallerCtx 30), EvTimeAfter 5,
              EvGetInfo (WithTimeout CallerCtx 30), EvCtxDone],
             Some (ErrContext Canceled))
   \<and> call_ctx_Err (WithTimeout CallerCtx 30) None 29 = None
   \<and> call_ctx_Err (WithTimeout CallerCtx 30) None 30 \<noteq> None
   \<and> call_ctx_Err (WithTimeout CallerCtx 30) (Some Canceled) 0 \<noteq> None"
proof -
  have run: "waitForChainSync
       (exampleWorld\<lparr>callerSignal := (\<lambda>i. if i = 2 then Some Canceled else None)\<rparr>)
       5 1 exampleServices (Some CallerCtx)
     = Some ([EvGetInfo (WithTimeout CallerCtx 30), EvTimeAfter 5,
              EvGetInfo (WithTimeout CallerCtx 30), EvCtxDone],
             Some (ErrContext Canceled))"
    by code_simp
  have ctx: "CallerCtx = (case Some CallerCtx of None \<Rightarrow> Background | Some c \<Rightarrow> c)"
    by simp
  from waitForChainSync_query_context [OF run ctx] run
  show ?thesis
    by (simp add: rpcTimeout_def)
qed

text \<open>
  The claim as it was stated fails: with a context of the caller's passed in, the wait
  issues its queries under a child of that context, and this child is done, with the
  error \<^verbatim>\<open>context.Canceled\<close>, zero seconds into a query when the caller cancels, long
  before the timeout of the query.
\<close>

theorem waitForChainSync_query_context_counterexample:
  "waitForChainSync exampleWorld 5 1 exampleServices (Some CallerCtx)
     = Some ([EvGetInfo (WithTimeout CallerCtx 30), EvTimeAfter 5,
              EvGetInfo (WithTimeout CallerCtx 30), EvTimeAfter 5,
              EvGetInfo (WithTimeout CallerCtx 30)], None)
   \<and> call_ctx_Err (WithTimeout CallerCtx 30) (Some Canceled) 0 = Some Canceled
   \<and> \<not> rpcTimeout \<le> 0"
  by code_simp

end
